theory Spec2Isabelle
  imports Complex_Main
begin

section \<open>Strings, results and plain values\<close>

text \<open>
  Strings are byte strings. \<open>trim\<close> and \<open>toLowerCase\<close> are the JavaScript string
  methods restricted to ASCII: the white space removed is space, tab, line feed, vertical
  tab, form feed and carriage return, and only the letters A to Z are lowered.
\<close>

definition isWhiteSpace :: "char \<Rightarrow> bool" where
  "isWhiteSpace c = (let n = (of_char c :: nat) in n = 32 \<or> (9 \<le> n \<and> n \<le> 13))"

definition trim :: "string \<Rightarrow> string" where
  "trim s = rev (dropWhile isWhiteSpace (rev (dropWhile isWhiteSpace s)))"

definition lowerChar :: "char \<Rightarrow> char" where
  "lowerChar c = (let n = (of_char c :: nat) in if 65 \<le> n \<and> n \<le> 90 then char_of (n + 32) else c)"

definition toLowerCase :: "string \<Rightarrow> string" where
  "toLowerCase s = map lowerChar s"

text \<open>
  \<open>a || b\<close> on an optional string: an absent value and the empty string are both falsy.
\<close>

definition orElse :: "string option \<Rightarrow> string \<Rightarrow> string" where
  "orElse v d = (case v of None \<Rightarrow> d | Some s \<Rightarrow> if s = [] then d else s)"

definition truthy :: "string option \<Rightarrow> bool" where
  "truthy v = (case v of None \<Rightarrow> False | Some s \<Rightarrow> s \<noteq> [])"

text \<open>
  Every \<open>throw new Error(message)\<close> of the sources is a value of \<open>error\<close>, one constructor
  per message, and so is a \<open>TypeError\<close> the run time raises. Checks of the form \<open>typeof x !== 'string'\<close> have no constructor: the types
  of the model exclude those inputs.
\<close>

datatype error =
    TitleRequired             \<comment> \<open>Task title is required and must be a non-empty string\<close>
  | UserIdRequired            \<comment> \<open>User ID is required and must be a non-empty string\<close>
  | InvalidPriority string    \<comment> \<open>Invalid priority: ...\<close>
  | InvalidStatus string      \<comment> \<open>Invalid status: ...\<close>
  | CategoryRequired          \<comment> \<open>Category must be a non-empty string\<close>
  | HoursInvalid              \<comment> \<open>Hours must be a positive number or null\<close>
  | TitleEmpty                \<comment> \<open>Task title cannot be empty\<close>
  | AssigneeRequired          \<comment> \<open>Valid user ID is required for assignment\<close>
  | TagRequired               \<comment> \<open>Tag must be a non-empty string\<close>
  | TimeSpentInvalid          \<comment> \<open>Hours must be a positive number\<close>
  | NoteRequired              \<comment> \<open>Note must be a non-empty string\<close>
  | DependencyRequired        \<comment> \<open>Task ID must be a non-empty string\<close>
  | SelfDependency            \<comment> \<open>Task cannot depend on itself\<close>
  | RepoTitleRequired         \<comment> \<open>Task title is required\<close>
  | RepoUserRequired          \<comment> \<open>Task must be assigned to a user\<close>
  | DuplicateId string        \<comment> \<open>Task with ID ... already exists\<close>
  | MissingParameters "string list"  \<comment> \<open>Missing required parameters: ...\<close>
  | PermissionDenied          \<comment> \<open>Permission denied: Cannot modify this task\<close>
  | TaskNotFound              \<comment> \<open>Task not found\<close>
  | TypeError string          \<comment> \<open>a \<open>TypeError\<close> of the run time, with its message\<close>

definition bindE :: "error + 'a \<Rightarrow> ('a \<Rightarrow> error + 'b) \<Rightarrow> error + 'b" where
  "bindE m f = (case m of Inl e \<Rightarrow> Inl e | Inr x \<Rightarrow> f x)"

section \<open>The Task model\<close>

text \<open>
  Times are milliseconds since the epoch (\<open>int\<close>); a \<open>Date\<close> object and the ISO string
  \<open>toISOString\<close> gives for it denote the same number, so invalid dates are excluded by
  the type. Hours are JavaScript numbers, modelled as rationals. The private field \<open>_x\<close>
  of the class is the record field \<open>t_x\<close>.
\<close>

record Note =
  n_id :: string
  n_content :: string
  n_author :: "string option"
  n_createdAt :: int

record Task =
  t_id :: string
  t_createdAt :: int
  t_title :: string
  t_description :: string
  t_priority :: string
  t_completed :: bool
  t_updatedAt :: int
  t_userId :: string
  t_assignedTo :: string
  t_category :: string
  t_tags :: "string list"
  t_dueDate :: "int option"
  t_estimatedHours :: "rat option"
  t_actualHours :: "rat option"
  t_status :: string
  t_completedAt :: "int option"
  t_notes :: "Note list"
  t_attachments :: "string list"
  t_dependencies :: "string list"

text \<open>
  A plain object: the \<open>options\<close> argument of the constructor, the \<open>data\<close> argument of
  \<open>fromJSON\<close>, the value of \<open>toJSON\<close> and a row of the persisted collection. The property
  \<open>x\<close> is the field \<open>d_x\<close>; \<open>None\<close> is an absent (\<open>undefined\<close> or \<open>null\<close>) property.
\<close>

record TaskData =
  d_id :: "string option"
  d_title :: "string option"
  d_description :: "string option"
  d_userId :: "string option"
  d_assignedTo :: "string option"
  d_priority :: "string option"
  d_category :: "string option"
  d_tags :: "string list option"
  d_completed :: "bool option"
  d_status :: "string option"
  d_dueDate :: "int option"
  d_estimatedHours :: "rat option"
  d_actualHours :: "rat option"
  d_notes :: "Note list option"
  d_attachments :: "string list option"
  d_dependencies :: "string list option"
  d_createdAt :: "int option"
  d_updatedAt :: "int option"
  d_completedAt :: "int option"

subsection \<open>Private validation methods\<close>

definition validateConstructorParams :: "string option \<Rightarrow> string option \<Rightarrow> string option \<Rightarrow> error option" where
  "validateConstructorParams title description userId =
     (if \<not> truthy title \<or> trim (the title) = [] then Some TitleRequired
      else if \<not> truthy userId then Some UserIdRequired
      else None)"

definition validatePriority :: "string \<Rightarrow> error + string" where
  "validatePriority priority =
     (if priority \<notin> set [''low'', ''medium'', ''high'', ''urgent'']
      then Inl (InvalidPriority priority) else Inr priority)"

definition validateCategory :: "string \<Rightarrow> error + string" where
  "validateCategory category =
     (if category = [] then Inl CategoryRequired else Inr (toLowerCase (trim category)))"

definition validateTags :: "string list \<Rightarrow> string list" where
  "validateTags tags = map (\<lambda>tag. toLowerCase (trim tag)) tags"

definition validateStatus :: "string \<Rightarrow> error + string" where
  "validateStatus status =
     (if status \<notin> set [''pending'', ''in-progress'', ''blocked'', ''completed'', ''cancelled'']
      then Inl (InvalidStatus status) else Inr status)"

definition validateHours :: "rat option \<Rightarrow> error + rat option" where
  "validateHours hours =
     (case hours of None \<Rightarrow> Inr None
      | Some h \<Rightarrow> if h < 0 then Inl HoursInvalid else Inr (Some h))"

definition touch :: "int \<Rightarrow> Task \<Rightarrow> Task" where
  "touch now t = t\<lparr>t_updatedAt := now\<rparr>"

subsection \<open>Constructor\<close>

text \<open>
  \<open>_generateId()\<close> returns \<open>'task_' + Date.now() + '_' + Math.random()...\<close>; the
  argument \<open>entropy\<close> stands for everything after the prefix (the clock reading, the
  underscore and the random suffix), which the environment chooses.
\<close>

definition generateId :: "string \<Rightarrow> string" where
  "generateId entropy = ''task_'' @ entropy"

text \<open>
  \<open>constructor entropy now title description userId options\<close> is
  \<open>new Task(title, description, userId, options)\<close> run at time \<open>now\<close>.
  The validations run, and throw, in the order of the source.
\<close>

definition "constructor" :: "string \<Rightarrow> int \<Rightarrow> string option \<Rightarrow> string option \<Rightarrow> string option \<Rightarrow> TaskData \<Rightarrow> error + Task" where
  "constructor entropy now title description userId options =
     (case validateConstructorParams title description userId of
        Some e \<Rightarrow> Inl e
      | None \<Rightarrow>
          bindE (validatePriority (orElse (d_priority options) ''medium'')) (\<lambda>priority.
          bindE (validateCategory (orElse (d_category options) ''general'')) (\<lambda>category.
          bindE (validateHours (d_estimatedHours options)) (\<lambda>estimatedHours.
          bindE (validateHours (d_actualHours options)) (\<lambda>actualHours.
          bindE (validateStatus (orElse (d_status options) ''pending'')) (\<lambda>status.
            Inr \<lparr> t_id = orElse (d_id options) (generateId entropy),
                  t_createdAt = (case d_createdAt options of Some c \<Rightarrow> c | None \<Rightarrow> now),
                  t_title = trim (the title),
                  t_description = (if truthy description then trim (the description) else []),
                  t_priority = priority,
                  t_completed = (case d_completed options of Some b \<Rightarrow> b | None \<Rightarrow> False),
                  t_updatedAt = (case d_updatedAt options of Some u \<Rightarrow> u | None \<Rightarrow> now),
                  t_userId = the userId,
                  t_assignedTo = orElse (d_assignedTo options) (the userId),
                  t_category = category,
                  t_tags = validateTags (case d_tags options of Some ts \<Rightarrow> ts | None \<Rightarrow> []),
                  t_dueDate = d_dueDate options,
                  t_estimatedHours = estimatedHours,
                  t_actualHours = actualHours,
                  t_status = status,
                  t_completedAt = d_completedAt options,
                  t_notes = (case d_notes options of Some ns \<Rightarrow> ns | None \<Rightarrow> []),
                  t_attachments = (case d_attachments options of Some as \<Rightarrow> as | None \<Rightarrow> []),
                  t_dependencies = (case d_dependencies options of Some ds \<Rightarrow> ds | None \<Rightarrow> []) \<rparr>))))))"

subsection \<open>Computed properties\<close>

definition isOverdue :: "int \<Rightarrow> Task \<Rightarrow> bool" where
  "isOverdue now t =
     (if t_dueDate t = None \<or> t_completed t then False else now > the (t_dueDate t))"

definition daysUntilDue :: "int \<Rightarrow> Task \<Rightarrow> int option" where
  "daysUntilDue now t =
     (case t_dueDate t of None \<Rightarrow> None
      | Some d \<Rightarrow> Some (\<lceil>of_int (d - now) / (of_int (1000 * 60 * 60 * 24) :: rat)\<rceil>))"

definition progress :: "Task \<Rightarrow> rat" where
  "progress t =
     (if t_completed t then 100
      else case (t_estimatedHours t, t_actualHours t) of
             (Some e, Some a) \<Rightarrow> if e = 0 \<or> a = 0 then 0 else min 100 ((a / e) * 100)
           | _ \<Rightarrow> 0)"

subsection \<open>Mutators\<close>

definition updateTitle :: "int \<Rightarrow> string \<Rightarrow> Task \<Rightarrow> error + Task" where
  "updateTitle now newTitle t =
     (if newTitle = [] \<or> trim newTitle = [] then Inl TitleEmpty
      else Inr (touch now (t\<lparr>t_title := trim newTitle\<rparr>)))"

definition updateDescription :: "int \<Rightarrow> string option \<Rightarrow> Task \<Rightarrow> Task" where
  "updateDescription now newDescription t =
     touch now (t\<lparr>t_description := (if truthy newDescription then trim (the newDescription) else [])\<rparr>)"

definition updatePriority :: "int \<Rightarrow> string \<Rightarrow> Task \<Rightarrow> error + Task" where
  "updatePriority now newPriority t =
     bindE (validatePriority newPriority) (\<lambda>p. Inr (touch now (t\<lparr>t_priority := p\<rparr>)))"

definition markComplete :: "int \<Rightarrow> Task \<Rightarrow> Task" where
  "markComplete now t =
     (if t_completed t then t
      else touch now (t\<lparr>t_completed := True, t_status := ''completed'', t_completedAt := Some now\<rparr>))"

definition markIncomplete :: "int \<Rightarrow> Task \<Rightarrow> Task" where
  "markIncomplete now t =
     (if \<not> t_completed t then t
      else touch now (t\<lparr>t_completed := False, t_status := ''pending'', t_completedAt := None\<rparr>))"

definition assignTo :: "int \<Rightarrow> string \<Rightarrow> Task \<Rightarrow> error + Task" where
  "assignTo now userId t =
     (if userId = [] then Inl AssigneeRequired
      else Inr (touch now (t\<lparr>t_assignedTo := userId\<rparr>)))"

definition reassignToOwner :: "int \<Rightarrow> Task \<Rightarrow> Task" where
  "reassignToOwner now t = touch now (t\<lparr>t_assignedTo := t_userId t\<rparr>)"

definition setCategory :: "int \<Rightarrow> string \<Rightarrow> Task \<Rightarrow> error + Task" where
  "setCategory now category t =
     bindE (validateCategory category) (\<lambda>c. Inr (touch now (t\<lparr>t_category := c\<rparr>)))"

definition addTag :: "int \<Rightarrow> string \<Rightarrow> Task \<Rightarrow> error + Task" where
  "addTag now tag t =
     (if tag = [] then Inl TagRequired
      else let normalizedTag = toLowerCase (trim tag) in
        if normalizedTag \<notin> set (t_tags t)
        then Inr (touch now (t\<lparr>t_tags := t_tags t @ [normalizedTag]\<rparr>))
        else Inr t)"

definition removeTag :: "int \<Rightarrow> string \<Rightarrow> Task \<Rightarrow> Task" where
  "removeTag now tag t =
     (let normalizedTag = toLowerCase (trim tag) in
        if normalizedTag \<in> set (t_tags t)
        then touch now (t\<lparr>t_tags := remove1 normalizedTag (t_tags t)\<rparr>)
        else t)"

definition clearTags :: "int \<Rightarrow> Task \<Rightarrow> Task" where
  "clearTags now t = touch now (t\<lparr>t_tags := []\<rparr>)"

definition hasTag :: "string \<Rightarrow> Task \<Rightarrow> bool" where
  "hasTag tag t = (toLowerCase (trim tag) \<in> set (t_tags t))"

definition setDueDate :: "int \<Rightarrow> int option \<Rightarrow> Task \<Rightarrow> Task" where
  "setDueDate now date t = touch now (t\<lparr>t_dueDate := date\<rparr>)"

definition clearDueDate :: "int \<Rightarrow> Task \<Rightarrow> Task" where
  "clearDueDate now t = touch now (t\<lparr>t_dueDate := None\<rparr>)"

definition setEstimatedHours :: "int \<Rightarrow> rat option \<Rightarrow> Task \<Rightarrow> error + Task" where
  "setEstimatedHours now hours t =
     bindE (validateHours hours) (\<lambda>h. Inr (touch now (t\<lparr>t_estimatedHours := h\<rparr>)))"

definition setActualHours :: "int \<Rightarrow> rat option \<Rightarrow> Task \<Rightarrow> error + Task" where
  "setActualHours now hours t =
     bindE (validateHours hours) (\<lambda>h. Inr (touch now (t\<lparr>t_actualHours := h\<rparr>)))"

definition addTimeSpent :: "int \<Rightarrow> rat \<Rightarrow> Task \<Rightarrow> error + Task" where
  "addTimeSpent now hours t =
     (if hours < 0 then Inl TimeSpentInvalid
      else Inr (touch now (t\<lparr>t_actualHours :=
                  Some ((case t_actualHours t of None \<Rightarrow> 0 | Some a \<Rightarrow> a) + hours)\<rparr>)))"

text \<open>
  \<open>setStatus\<close> stores the validated status and then brings \<open>_completed\<close> in line with
  it through \<open>markComplete\<close> or \<open>markIncomplete\<close>; the latter writes the status
  \<open>pending\<close> over the one just stored.
\<close>

definition setStatus :: "int \<Rightarrow> string \<Rightarrow> Task \<Rightarrow> error + Task" where
  "setStatus now status t =
     bindE (validateStatus status) (\<lambda>s.
       let t1 = t\<lparr>t_status := s\<rparr> in
       if status = ''completed'' \<and> \<not> t_completed t1 then Inr (markComplete now t1)
       else if status \<noteq> ''completed'' \<and> t_completed t1 then Inr (markIncomplete now t1)
       else Inr t1)"

definition addNote :: "string \<Rightarrow> int \<Rightarrow> string \<Rightarrow> string option \<Rightarrow> Task \<Rightarrow> error + Task" where
  "addNote entropy now note author t =
     (if note = [] then Inl NoteRequired
      else Inr (touch now (t\<lparr>t_notes := t_notes t @
                  [\<lparr>n_id = generateId entropy, n_content = trim note, n_author = author, n_createdAt = now\<rparr>]\<rparr>)))"

fun removeFirst :: "('a \<Rightarrow> bool) \<Rightarrow> 'a list \<Rightarrow> 'a list" where
  "removeFirst p [] = []"
| "removeFirst p (x # xs) = (if p x then xs else x # removeFirst p xs)"

definition removeNote :: "int \<Rightarrow> string \<Rightarrow> Task \<Rightarrow> Task" where
  "removeNote now noteId t =
     (if \<exists>n \<in> set (t_notes t). n_id n = noteId
      then touch now (t\<lparr>t_notes := removeFirst (\<lambda>n. n_id n = noteId) (t_notes t)\<rparr>)
      else t)"

definition addDependency :: "int \<Rightarrow> string \<Rightarrow> Task \<Rightarrow> error + Task" where
  "addDependency now taskId t =
     (if taskId = [] then Inl DependencyRequired
      else if taskId = t_id t then Inl SelfDependency
      else if taskId \<notin> set (t_dependencies t)
        then Inr (touch now (t\<lparr>t_dependencies := t_dependencies t @ [taskId]\<rparr>))
        else Inr t)"

definition removeDependency :: "int \<Rightarrow> string \<Rightarrow> Task \<Rightarrow> Task" where
  "removeDependency now taskId t =
     (if taskId \<in> set (t_dependencies t)
      then touch now (t\<lparr>t_dependencies := remove1 taskId (t_dependencies t)\<rparr>)
      else t)"

definition hasDependency :: "string \<Rightarrow> Task \<Rightarrow> bool" where
  "hasDependency taskId t = (taskId \<in> set (t_dependencies t))"

subsection \<open>Serialization\<close>

definition toJSON :: "Task \<Rightarrow> TaskData" where
  "toJSON t =
     \<lparr> d_id = Some (t_id t),
       d_title = Some (t_title t),
       d_description = Some (t_description t),
       d_userId = Some (t_userId t),
       d_assignedTo = Some (t_assignedTo t),
       d_priority = Some (t_priority t),
       d_category = Some (t_category t),
       d_tags = Some (t_tags t),
       d_completed = Some (t_completed t),
       d_status = Some (t_status t),
       d_dueDate = t_dueDate t,
       d_estimatedHours = t_estimatedHours t,
       d_actualHours = t_actualHours t,
       d_notes = Some (t_notes t),
       d_attachments = Some (t_attachments t),
       d_dependencies = Some (t_dependencies t),
       d_createdAt = Some (t_createdAt t),
       d_updatedAt = Some (t_updatedAt t),
       d_completedAt = t_completedAt t \<rparr>"

definition fromJSON :: "string \<Rightarrow> int \<Rightarrow> TaskData \<Rightarrow> error + Task" where
  "fromJSON entropy now data =
     constructor entropy now (d_title data) (d_description data) (d_userId data) data"

definition clone :: "string \<Rightarrow> int \<Rightarrow> Task \<Rightarrow> error + Task" where
  "clone entropy now t =
     fromJSON entropy now ((toJSON t)\<lparr>d_id := Some (generateId entropy), d_createdAt := Some now, d_updatedAt := Some now\<rparr>)"

section \<open>The task repository\<close>

text \<open>
  The persistence collaborator is outside the sources; it is modelled by the collection it
  holds under the key \<open>tasks\<close> and by two counters of the \<open>load\<close> and \<open>save\<close> calls made
  on it. \<open>load\<close> hands out a copy of the collection. The cache is the \<open>Map\<close> from ids to
  \<open>{data, timestamp}\<close> entries. Entities are records of type \<open>Task\<close>: the \<open>Task\<close> instances
  the service layer hands to the repository and, for \<open>create\<close>, which checks the title and the
  user itself and asks for no instance, any object with these properties. They are values:
  a caller that mutates a task it was given does not change the cached one.

  Each operation reads the clock once: \<open>now\<close> is the value of \<open>Date.now()\<close> and of
  \<open>new Date()\<close> throughout the call.
\<close>

record 'e CacheEntry =
  ce_data :: 'e
  ce_timestamp :: int

record TaskRepository =
  storage :: "TaskData list"
  cache :: "string \<rightharpoonup> Task CacheEntry"
  cacheExpiry :: int
  loadCalls :: nat
  saveCalls :: nat

definition TaskRepository_new :: "TaskData list \<Rightarrow> TaskRepository" where
  "TaskRepository_new persisted =
     \<lparr> storage = persisted, cache = Map.empty, cacheExpiry = 5 * 60 * 1000,
       loadCalls = 0, saveCalls = 0 \<rparr>"

definition getAllTasks :: "TaskRepository \<Rightarrow> TaskData list \<times> TaskRepository" where
  "getAllTasks r = (storage r, r\<lparr>loadCalls := loadCalls r + 1\<rparr>)"

definition saveTasks :: "TaskData list \<Rightarrow> TaskRepository \<Rightarrow> TaskRepository" where
  "saveTasks tasks r = r\<lparr>storage := tasks, saveCalls := saveCalls r + 1\<rparr>"

definition validateTask :: "Task \<Rightarrow> error option" where
  "validateTask task =
     (if t_title task = [] \<or> trim (t_title task) = [] then Some RepoTitleRequired
      else if t_userId task = [] then Some RepoUserRequired
      else None)"

definition hydrateTask :: "string \<Rightarrow> int \<Rightarrow> TaskData \<Rightarrow> error + Task" where
  "hydrateTask entropy now taskData = fromJSON entropy now taskData"

text \<open>
  \<open>_getFromCache\<close>, on the cache alone so that both repositories share it: the value
  found, if any, and the cache with an expired entry deleted.
\<close>

definition getFromCache :: "int \<Rightarrow> int \<Rightarrow> (string \<rightharpoonup> 'e CacheEntry) \<Rightarrow> string \<Rightarrow> 'e option \<times> (string \<rightharpoonup> 'e CacheEntry)" where
  "getFromCache now expiry c ident =
     (case c ident of
        None \<Rightarrow> (None, c)
      | Some cached \<Rightarrow>
          if now - ce_timestamp cached > expiry then (None, c(ident := None))
          else (Some (ce_data cached), c))"

fun findIndex :: "('a \<Rightarrow> bool) \<Rightarrow> 'a list \<Rightarrow> nat option" where
  "findIndex p [] = None"
| "findIndex p (x # xs) = (if p x then Some 0 else map_option Suc (findIndex p xs))"

text \<open>
  \<open>create\<close>. A \<open>Task\<close> has no setter for \<open>id\<close>, so \<open>task.id = this._generateId()\<close>, which
  is strict-mode code, throws a \<open>TypeError\<close> for a task whose id is empty. (A plain object
  without an id would be given the generated one; an entity without an id is taken to be
  an instance.)
\<close>

definition create :: "int \<Rightarrow> Task \<Rightarrow> TaskRepository \<Rightarrow> (error + Task) \<times> TaskRepository" where
  "create now task r =
     (case validateTask task of
        Some e \<Rightarrow> (Inl e, r)
      | None \<Rightarrow>
          if t_id task = []
          then (Inl (TypeError ''Cannot set property id of #<Task> which has only a getter''), r)
          else
            let (tasks, r1) = getAllTasks r in
            if \<exists>row \<in> set tasks. d_id row = Some (t_id task)
            then (Inl (DuplicateId (t_id task)), r1)
            else
              let r2 = saveTasks (tasks @ [toJSON task]) r1 in
              (Inr task,
               r2\<lparr>cache := (cache r2)(t_id task \<mapsto> \<lparr>ce_data = task, ce_timestamp = now\<rparr>)\<rparr>))"

definition findById :: "string \<Rightarrow> int \<Rightarrow> string \<Rightarrow> TaskRepository \<Rightarrow> (error + Task option) \<times> TaskRepository" where
  "findById entropy now ident r =
     (let (cached, c) = getFromCache now (cacheExpiry r) (cache r) ident;
          r0 = r\<lparr>cache := c\<rparr> in
      case cached of
        Some task \<Rightarrow> (Inr (Some task), r0)
      | None \<Rightarrow>
          let (tasks, r1) = getAllTasks r0 in
          case find (\<lambda>row. d_id row = Some ident) tasks of
            None \<Rightarrow> (Inr None, r1)
          | Some taskData \<Rightarrow>
              (case hydrateTask entropy now taskData of
                 Inl e \<Rightarrow> (Inl e, r1)
               | Inr task \<Rightarrow>
                   (Inr (Some task),
                    r1\<lparr>cache := (cache r1)(ident \<mapsto> \<lparr>ce_data = task, ce_timestamp = now\<rparr>)\<rparr>)))"

subsection \<open>Update\<close>

text \<open>
  \<open>update\<close> walks over the keys of \<open>updates\<close>. For a key \<open>k\<close> that names a field \<open>_k\<close> of the
  task it calls \<open>setK\<close> if the task has such a method, else \<open>updateK\<close> if it has that one,
  and else writes the field \<open>_k\<close> itself. An entry of \<open>updates\<close> is a value of \<open>fieldUpdate\<close>,
  one constructor per key, with the value typed as the field is; \<open>applyUpdate\<close> is the
  branch the dispatch takes for that key, given the methods class \<open>Task\<close> has. Keys that
  name no field of the task are skipped. (Keys spelled with the underscore are not
  modelled.)
\<close>

datatype fieldUpdate =
    Upd_id string
  | Upd_createdAt int
  | Upd_title string
  | Upd_description "string option"
  | Upd_priority string
  | Upd_completed bool
  | Upd_updatedAt int
  | Upd_userId string
  | Upd_assignedTo string
  | Upd_category string
  | Upd_tags "string list"
  | Upd_dueDate "int option"
  | Upd_estimatedHours "rat option"
  | Upd_actualHours "rat option"
  | Upd_status string
  | Upd_completedAt "int option"
  | Upd_notes "Note list"
  | Upd_attachments "string list"
  | Upd_dependencies "string list"
  | Upd_other string

fun applyUpdate :: "int \<Rightarrow> fieldUpdate \<Rightarrow> Task \<Rightarrow> error + Task" where
  "applyUpdate now (Upd_id v) t = Inr (t\<lparr>t_id := v\<rparr>)"
| "applyUpdate now (Upd_createdAt v) t = Inr (t\<lparr>t_createdAt := v\<rparr>)"
| "applyUpdate now (Upd_title v) t = updateTitle now v t"
| "applyUpdate now (Upd_description v) t = Inr (updateDescription now v t)"
| "applyUpdate now (Upd_priority v) t = updatePriority now v t"
| "applyUpdate now (Upd_completed v) t = Inr (t\<lparr>t_completed := v\<rparr>)"
| "applyUpdate now (Upd_updatedAt v) t = Inr (t\<lparr>t_updatedAt := v\<rparr>)"
| "applyUpdate now (Upd_userId v) t = Inr (t\<lparr>t_userId := v\<rparr>)"
| "applyUpdate now (Upd_assignedTo v) t = Inr (t\<lparr>t_assignedTo := v\<rparr>)"
| "applyUpdate now (Upd_category v) t = setCategory now v t"
| "applyUpdate now (Upd_tags v) t = Inr (t\<lparr>t_tags := v\<rparr>)"
| "applyUpdate now (Upd_dueDate v) t = Inr (setDueDate now v t)"
| "applyUpdate now (Upd_estimatedHours v) t = setEstimatedHours now v t"
| "applyUpdate now (Upd_actualHours v) t = setActualHours now v t"
| "applyUpdate now (Upd_status v) t = setStatus now v t"
| "applyUpdate now (Upd_completedAt v) t = Inr (t\<lparr>t_completedAt := v\<rparr>)"
| "applyUpdate now (Upd_notes v) t = Inr (t\<lparr>t_notes := v\<rparr>)"
| "applyUpdate now (Upd_attachments v) t = Inr (t\<lparr>t_attachments := v\<rparr>)"
| "applyUpdate now (Upd_dependencies v) t = Inr (t\<lparr>t_dependencies := v\<rparr>)"
| "applyUpdate now (Upd_other k) t = Inr t"

fun applyUpdates :: "int \<Rightarrow> fieldUpdate list \<Rightarrow> Task \<Rightarrow> error + Task" where
  "applyUpdates now [] t = Inr t"
| "applyUpdates now (u # us) t = bindE (applyUpdate now u t) (applyUpdates now us)"

definition update :: "string \<Rightarrow> int \<Rightarrow> string \<Rightarrow> fieldUpdate list \<Rightarrow> TaskRepository \<Rightarrow> (error + Task option) \<times> TaskRepository" where
  "update entropy now ident updates r =
     (let (tasks, r1) = getAllTasks r in
      case findIndex (\<lambda>row. d_id row = Some ident) tasks of
        None \<Rightarrow> (Inr None, r1)
      | Some taskIndex \<Rightarrow>
          (case bindE (hydrateTask entropy now (tasks ! taskIndex)) (applyUpdates now updates) of
             Inl e \<Rightarrow> (Inl e, r1)
           | Inr updated \<Rightarrow>
               let currentTask = updated\<lparr>t_updatedAt := now\<rparr>;
                   r2 = saveTasks (tasks[taskIndex := toJSON currentTask]) r1 in
               (Inr (Some currentTask),
                r2\<lparr>cache := (cache r2)(ident \<mapsto> \<lparr>ce_data = currentTask, ce_timestamp = now\<rparr>)\<rparr>)))"

definition delete :: "string \<Rightarrow> TaskRepository \<Rightarrow> bool \<times> TaskRepository" where
  "delete ident r =
     (let (tasks, r1) = getAllTasks r in
      case findIndex (\<lambda>row. d_id row = Some ident) tasks of
        None \<Rightarrow> (False, r1)
      | Some taskIndex \<Rightarrow>
          let r2 = saveTasks (take taskIndex tasks @ drop (Suc taskIndex) tasks) r1 in
          (True, r2\<lparr>cache := (cache r2)(ident := None)\<rparr>))"

section \<open>Queries\<close>

text \<open>
  The \<open>options\<close> of \<open>findAll\<close>. \<open>None\<close> is a property left out; a string filter that is
  given but empty, and a limit or offset of zero, are falsy and so switch nothing on.
\<close>

record FindOptions =
  o_userId :: "string option"
  o_completed :: "bool option"
  o_priority :: "string option"
  o_category :: "string option"
  o_assignedTo :: "string option"
  o_sortBy :: "string option"
  o_sortOrder :: "string option"
  o_limit :: "nat option"
  o_offset :: "nat option"

definition noOptions :: FindOptions where
  "noOptions = \<lparr> o_userId = None, o_completed = None, o_priority = None, o_category = None,
                  o_assignedTo = None, o_sortBy = None, o_sortOrder = None,
                  o_limit = None, o_offset = None \<rparr>"

subsection \<open>Sorting\<close>

text \<open>
  The value \<open>a[sortBy]\<close> of a property read by name. An array is kept as the list of the
  strings its elements convert to, which is all a comparison looks at. Names of getters
  of the class are modelled; any other name reads as \<open>undefined\<close>.
\<close>

datatype jsvalue =
    JString string
  | JNumber rat
  | JBoolean bool
  | JDate int
  | JArray "string list"
  | JNull
  | JUndefined

definition numberOrNull :: "rat option \<Rightarrow> jsvalue" where
  "numberOrNull v = (case v of None \<Rightarrow> JNull | Some n \<Rightarrow> JNumber n)"

definition dateOrNull :: "int option \<Rightarrow> jsvalue" where
  "dateOrNull v = (case v of None \<Rightarrow> JNull | Some d \<Rightarrow> JDate d)"

definition property :: "int \<Rightarrow> string \<Rightarrow> Task \<Rightarrow> jsvalue" where
  "property now name t =
     (if name = ''id'' then JString (t_id t)
      else if name = ''createdAt'' then JDate (t_createdAt t)
      else if name = ''userId'' then JString (t_userId t)
      else if name = ''title'' then JString (t_title t)
      else if name = ''description'' then JString (t_description t)
      else if name = ''priority'' then JString (t_priority t)
      else if name = ''completed'' then JBoolean (t_completed t)
      else if name = ''updatedAt'' then JDate (t_updatedAt t)
      else if name = ''assignedTo'' then JString (t_assignedTo t)
      else if name = ''category'' then JString (t_category t)
      else if name = ''tags'' then JArray (t_tags t)
      else if name = ''dueDate'' then dateOrNull (t_dueDate t)
      else if name = ''estimatedHours'' then numberOrNull (t_estimatedHours t)
      else if name = ''actualHours'' then numberOrNull (t_actualHours t)
      else if name = ''status'' then JString (t_status t)
      else if name = ''completedAt'' then dateOrNull (t_completedAt t)
      else if name = ''notes'' then JArray (map (\<lambda>n. ''[object Object]'') (t_notes t))
      else if name = ''attachments'' then JArray (t_attachments t)
      else if name = ''dependencies'' then JArray (t_dependencies t)
      else if name = ''isOverdue'' then JBoolean (isOverdue now t)
      else if name = ''daysUntilDue'' then numberOrNull (map_option of_int (daysUntilDue now t))
      else if name = ''progress'' then JNumber (progress t)
      else JUndefined)"

text \<open>\<open>s.includes(sub)\<close> on strings.\<close>

fun stringIncludes :: "string \<Rightarrow> string \<Rightarrow> bool" where
  "stringIncludes [] sub = (sub = [])"
| "stringIncludes (c # cs) sub = (take (length sub) (c # cs) = sub \<or> stringIncludes cs sub)"

text \<open>
  \<open>new Date(v)\<close>: a date is copied, \<open>null\<close> is the epoch, and \<open>undefined\<close> gives an invalid
  date, which like \<open>undefined\<close> itself compares neither greater nor less than anything.
  No property whose name contains \<open>Date\<close> or \<open>At\<close> has another kind of value.
\<close>

definition newDate :: "jsvalue \<Rightarrow> jsvalue" where
  "newDate v = (case v of JDate d \<Rightarrow> JDate d | JNull \<Rightarrow> JDate 0 | _ \<Rightarrow> JUndefined)"

text \<open>
  The relational operators convert both operands to primitives: an array to its elements
  joined by commas, a date to its time. Two strings are compared code unit by code unit;
  otherwise both are converted to numbers, and a comparison with \<open>NaN\<close> is false. The
  values of one property over several tasks are never a string and a non-string, so
  the numeric reading of a string is left as \<open>NaN\<close>.
\<close>

fun stringLess :: "string \<Rightarrow> string \<Rightarrow> bool" where
  "stringLess [] [] = False"
| "stringLess [] (y # ys) = True"
| "stringLess (x # xs) [] = False"
| "stringLess (x # xs) (y # ys) =
     ((of_char x :: nat) < of_char y \<or> (x = y \<and> stringLess xs ys))"

fun joinComma :: "string list \<Rightarrow> string" where
  "joinComma [] = []"
| "joinComma [x] = x"
| "joinComma (x # y # ys) = x @ '','' @ joinComma (y # ys)"

definition toPrimitive :: "jsvalue \<Rightarrow> jsvalue" where
  "toPrimitive v = (case v of JArray xs \<Rightarrow> JString (joinComma xs) | JDate d \<Rightarrow> JNumber (of_int d) | _ \<Rightarrow> v)"

definition toNumber :: "jsvalue \<Rightarrow> rat option" where
  "toNumber v =
     (case v of JNumber n \<Rightarrow> Some n
      | JBoolean b \<Rightarrow> Some (if b then 1 else 0)
      | JNull \<Rightarrow> Some 0
      | _ \<Rightarrow> None)"

definition jsLess :: "jsvalue \<Rightarrow> jsvalue \<Rightarrow> bool" where
  "jsLess a b =
     (case (toPrimitive a, toPrimitive b) of
        (JString x, JString y) \<Rightarrow> stringLess x y
      | (pa, pb) \<Rightarrow>
          (case (toNumber pa, toNumber pb) of
             (Some m, Some n) \<Rightarrow> m < n
           | _ \<Rightarrow> False))"

definition jsGreater :: "jsvalue \<Rightarrow> jsvalue \<Rightarrow> bool" where
  "jsGreater a b = jsLess b a"

definition isString :: "jsvalue \<Rightarrow> bool" where
  "isString v = (case v of JString s \<Rightarrow> True | _ \<Rightarrow> False)"

text \<open>
  \<open>v.toLowerCase()\<close>. It is called on \<open>bValue\<close> when \<open>aValue\<close> is a string, and then
  \<open>bValue\<close> is a string too, being the same property of another task.
\<close>

definition lowered :: "jsvalue \<Rightarrow> jsvalue" where
  "lowered v = (case v of JString s \<Rightarrow> JString (toLowerCase s) | _ \<Rightarrow> v)"

text \<open>The comparator \<open>(a, b) => ...\<close> handed to \<open>sort\<close> by \<open>_sortTasks\<close>.\<close>

definition compareTasks :: "int \<Rightarrow> string \<Rightarrow> string \<Rightarrow> Task \<Rightarrow> Task \<Rightarrow> int" where
  "compareTasks now sortBy sortOrder a b =
     (let aValue = property now sortBy a;
          bValue = property now sortBy b;
          isDate = (stringIncludes sortBy ''Date'' \<or> stringIncludes sortBy ''At'');
          aValue = (if isDate then newDate aValue else aValue);
          bValue = (if isDate then newDate bValue else bValue);
          stringly = isString aValue;
          aValue = (if stringly then lowered aValue else aValue);
          bValue = (if stringly then lowered bValue else bValue);
          comparison = (if jsGreater aValue bValue then 1 else if jsLess aValue bValue then -1 else 0)
      in if sortOrder = ''desc'' then - comparison else comparison)"

text \<open>
  \<open>Array.prototype.sort\<close> with a comparator is a stable sort: elements the comparator
  calls equal keep their order. It is modelled by insertion from the right.
\<close>

fun insertBy :: "('a \<Rightarrow> 'a \<Rightarrow> int) \<Rightarrow> 'a \<Rightarrow> 'a list \<Rightarrow> 'a list" where
  "insertBy cmp x [] = [x]"
| "insertBy cmp x (y # ys) = (if cmp x y \<le> 0 then x # y # ys else y # insertBy cmp x ys)"

definition stableSort :: "('a \<Rightarrow> 'a \<Rightarrow> int) \<Rightarrow> 'a list \<Rightarrow> 'a list" where
  "stableSort cmp xs = foldr (insertBy cmp) xs []"

definition sortTasks :: "int \<Rightarrow> Task list \<Rightarrow> string \<Rightarrow> string option \<Rightarrow> Task list" where
  "sortTasks now tasks sortBy sortOrder =
     stableSort (compareTasks now sortBy (case sortOrder of None \<Rightarrow> ''asc'' | Some ord \<Rightarrow> ord)) tasks"

subsection \<open>findAll and the finders built on it\<close>

fun hydrateAll :: "string \<Rightarrow> int \<Rightarrow> TaskData list \<Rightarrow> error + Task list" where
  "hydrateAll entropy now [] = Inr []"
| "hydrateAll entropy now (row # rows) =
     bindE (hydrateTask entropy now row) (\<lambda>t.
     bindE (hydrateAll entropy now rows) (\<lambda>ts. Inr (t # ts)))"

definition positive :: "nat option \<Rightarrow> bool" where
  "positive n = (case n of None \<Rightarrow> False | Some k \<Rightarrow> k \<noteq> 0)"

definition applyOptions :: "int \<Rightarrow> FindOptions \<Rightarrow> Task list \<Rightarrow> Task list" where
  "applyOptions now options hydrated =
     (let result = hydrated;
          result = (if truthy (o_userId options)
                    then filter (\<lambda>task. t_userId task = the (o_userId options)) result else result);
          result = (case o_completed options of
                      Some c \<Rightarrow> filter (\<lambda>task. t_completed task = c) result | None \<Rightarrow> result);
          result = (if truthy (o_priority options)
                    then filter (\<lambda>task. t_priority task = the (o_priority options)) result else result);
          result = (if truthy (o_category options)
                    then filter (\<lambda>task. t_category task = the (o_category options)) result else result);
          result = (if truthy (o_assignedTo options)
                    then filter (\<lambda>task. t_assignedTo task = the (o_assignedTo options)) result else result);
          result = (if truthy (o_sortBy options)
                    then sortTasks now result (the (o_sortBy options)) (o_sortOrder options) else result);
          result = (if positive (o_limit options) \<or> positive (o_offset options)
                    then let offset = (if positive (o_offset options) then the (o_offset options) else 0);
                             limit = (if positive (o_limit options) then the (o_limit options) else length result)
                         in take limit (drop offset result)
                    else result)
      in result)"

definition findAll :: "string \<Rightarrow> int \<Rightarrow> FindOptions \<Rightarrow> TaskRepository \<Rightarrow> (error + Task list) \<times> TaskRepository" where
  "findAll entropy now options r =
     (let (tasks, r1) = getAllTasks r in
      case hydrateAll entropy now tasks of
        Inl e \<Rightarrow> (Inl e, r1)
      | Inr hydrated \<Rightarrow> (Inr (applyOptions now options hydrated), r1))"

definition findByUserId :: "string \<Rightarrow> int \<Rightarrow> string \<Rightarrow> TaskRepository \<Rightarrow> (error + Task list) \<times> TaskRepository" where
  "findByUserId entropy now userId r = findAll entropy now (noOptions\<lparr>o_userId := Some userId\<rparr>) r"

subsection \<open>Statistics\<close>

text \<open>
  \<open>stats.byCategory\<close> is the object literal \<open>{}\<close>, so it inherits from \<open>Object.prototype\<close>. The
  map holds the properties the object owns. Reading a name it does not own finds what
  \<open>Object.prototype\<close> has under that name: a function for \<open>constructor\<close> and the other
  methods, and the prototype object itself for \<open>__proto__\<close>. These are truthy, so
  \<open>(stats.byCategory[category] || 0) + 1\<close> converts them to a string and appends \<open>1\<close>;
  \<open>inheritedText\<close> is that string (as V8 prints a native function). A bucket is then a
  number or a string. Assigning a string to \<open>__proto__\<close> goes to the inherited setter, which
  ignores it, so that name never becomes a property of the object.
\<close>

datatype bucket = Count nat | Text string

definition inheritedText :: "string \<Rightarrow> string option" where
  "inheritedText name =
     (if name = ''__proto__'' then Some ''[object Object]''
      else if name = ''constructor'' then Some ''function Object() { [native code] }''
      else if name \<in> set [''hasOwnProperty'', ''isPrototypeOf'', ''propertyIsEnumerable'',
                            ''toLocaleString'', ''toString'', ''valueOf'', ''__defineGetter__'',
                            ''__defineSetter__'', ''__lookupGetter__'', ''__lookupSetter__'']
      then Some (''function '' @ name @ ''() { [native code] }'')
      else None)"

record PriorityCounts =
  high :: nat
  medium :: nat
  low :: nat

record Statistics =
  total :: nat
  completed :: nat
  pending :: nat
  overdue :: nat
  byPriority :: PriorityCounts
  byCategory :: "string \<rightharpoonup> bucket"

definition countCategory :: "Task \<Rightarrow> (string \<rightharpoonup> bucket) \<Rightarrow> (string \<rightharpoonup> bucket)" where
  "countCategory task counts =
     (let category = orElse (Some (t_category task)) ''uncategorized'';
          current = (case counts category of
                       Some b \<Rightarrow> Some b
                     | None \<Rightarrow> map_option Text (inheritedText category));
          next = (case current of
                    None \<Rightarrow> Count 1
                  | Some (Count n) \<Rightarrow> Count (n + 1)
                  | Some (Text s) \<Rightarrow> if s = [] then Count 1 else Text (s @ ''1''))
      in if category = ''__proto__'' then counts else counts(category \<mapsto> next))"

definition statistics :: "int \<Rightarrow> Task list \<Rightarrow> Statistics" where
  "statistics now tasks =
     \<lparr> total = length tasks,
       completed = length (filter (\<lambda>t. t_completed t) tasks),
       pending = length (filter (\<lambda>t. \<not> t_completed t) tasks),
       overdue = length (filter (\<lambda>task. \<not> t_completed task \<and> t_dueDate task \<noteq> None
                                         \<and> the (t_dueDate task) < now) tasks),
       byPriority = \<lparr> high = length (filter (\<lambda>t. t_priority t = ''high'') tasks),
                      medium = length (filter (\<lambda>t. t_priority t = ''medium'') tasks),
                      low = length (filter (\<lambda>t. t_priority t = ''low'') tasks) \<rparr>,
       byCategory = fold countCategory tasks Map.empty \<rparr>"

definition getStatistics :: "string \<Rightarrow> int \<Rightarrow> string option \<Rightarrow> TaskRepository \<Rightarrow> (error + Statistics) \<times> TaskRepository" where
  "getStatistics entropy now userId r =
     (let (found, r1) = (if truthy userId then findByUserId entropy now (the userId) r
                         else findAll entropy now noOptions r)
      in case found of
           Inl e \<Rightarrow> (Inl e, r1)
         | Inr tasks \<Rightarrow> (Inr (statistics now tasks), r1))"

section \<open>The user repository\<close>

text \<open>
  \<open>UserRepository\<close> has the same cache as \<open>TaskRepository\<close>, with an expiry of ten
  minutes. Class \<open>User\<close> is not among the sources, so the rows, the hydrated users, the
  hydration \<open>_hydrateUser\<close> and the reading of a row's \<open>id\<close> are parameters.
\<close>

record ('row, 'user) UserRepository =
  ur_storage :: "'row list"
  ur_cache :: "string \<rightharpoonup> 'user CacheEntry"
  ur_cacheExpiry :: int
  ur_loadCalls :: nat
  ur_saveCalls :: nat

definition UserRepository_new :: "'row list \<Rightarrow> ('row, 'user) UserRepository" where
  "UserRepository_new persisted =
     \<lparr> ur_storage = persisted, ur_cache = Map.empty, ur_cacheExpiry = 10 * 60 * 1000,
       ur_loadCalls = 0, ur_saveCalls = 0 \<rparr>"

definition getAllUsers :: "('row, 'user) UserRepository \<Rightarrow> 'row list \<times> ('row, 'user) UserRepository" where
  "getAllUsers r = (ur_storage r, r\<lparr>ur_loadCalls := ur_loadCalls r + 1\<rparr>)"

definition UserRepository_findById ::
    "('row \<Rightarrow> error + 'user) \<Rightarrow> ('row \<Rightarrow> string option) \<Rightarrow> int \<Rightarrow> string \<Rightarrow> ('row, 'user) UserRepository
      \<Rightarrow> (error + 'user option) \<times> ('row, 'user) UserRepository" where
  "UserRepository_findById hydrateUser rowId now ident r =
     (let (cached, c) = getFromCache now (ur_cacheExpiry r) (ur_cache r) ident;
          r0 = r\<lparr>ur_cache := c\<rparr> in
      case cached of
        Some user \<Rightarrow> (Inr (Some user), r0)
      | None \<Rightarrow>
          let (users, r1) = getAllUsers r0 in
          case find (\<lambda>row. rowId row = Some ident) users of
            None \<Rightarrow> (Inr None, r1)
          | Some userData \<Rightarrow>
              (case hydrateUser userData of
                 Inl e \<Rightarrow> (Inl e, r1)
               | Inr user \<Rightarrow>
                   (Inr (Some user),
                    r1\<lparr>ur_cache := (ur_cache r1)(ident \<mapsto> \<lparr>ce_data = user, ce_timestamp = now\<rparr>)\<rparr>)))"

section \<open>Service and controller\<close>

text \<open>
  Listeners are callbacks from outside; a notification is recorded in a log, the service's
  or the controller's, and what a listener then does (the view redrawing itself) is not
  modelled. Of the view only its presence matters: when one is attached, a successful
  update also refreshes the statistics. Of the current user the controller reads \<open>id\<close>,
  \<open>isAdmin\<close> and \<open>canManageUsers\<close>.
\<close>

datatype event =
    TaskUpdated "Task option"      \<comment> \<open>taskUpdated, with the updated task\<close>
  | ErrorEvent string error        \<comment> \<open>error, with the operation and the error\<close>

record User =
  u_id :: string
  u_isAdmin :: bool
  u_canManageUsers :: bool

record TaskController =
  currentUser :: "User option"
  taskRepository :: TaskRepository
  viewAttached :: bool
  serviceEvents :: "event list"
  controllerEvents :: "event list"

definition handleError :: "error \<Rightarrow> string \<Rightarrow> TaskController \<Rightarrow> (error + 'a) \<times> TaskController" where
  "handleError e operation c =
     (Inl e, c\<lparr>controllerEvents := controllerEvents c @ [ErrorEvent operation e]\<rparr>)"

definition validateParams :: "(string \<times> string) list \<Rightarrow> string list \<Rightarrow> error option" where
  "validateParams params required =
     (let missing = filter (\<lambda>param. case map_of params param of None \<Rightarrow> True | Some v \<Rightarrow> v = []) required
      in if length missing > 0 then Some (MissingParameters missing) else None)"

definition canModifyTask :: "TaskController \<Rightarrow> Task option \<Rightarrow> bool" where
  "canModifyTask c task =
     (case (task, currentUser c) of
        (Some t, Some u) \<Rightarrow>
          if t_userId t = u_id u \<or> t_assignedTo t = u_id u then True
          else if u_isAdmin u then True
          else False
      | _ \<Rightarrow> False)"

definition canViewTask :: "TaskController \<Rightarrow> Task option \<Rightarrow> bool" where
  "canViewTask c task =
     (case (task, currentUser c) of
        (Some t, Some u) \<Rightarrow>
          if t_userId t = u_id u \<or> t_assignedTo t = u_id u then True
          else if u_isAdmin u \<or> u_canManageUsers u then True
          else False
      | _ \<Rightarrow> False)"

definition service_getTaskById :: "string \<Rightarrow> int \<Rightarrow> string \<Rightarrow> TaskController \<Rightarrow> (error + Task option) \<times> TaskController" where
  "service_getTaskById entropy now taskId c =
     (let (found, r) = findById entropy now taskId (taskRepository c)
      in (found, c\<lparr>taskRepository := r\<rparr>))"

definition service_updateTask :: "string \<Rightarrow> int \<Rightarrow> string \<Rightarrow> fieldUpdate list \<Rightarrow> TaskController \<Rightarrow> (error + Task option) \<times> TaskController" where
  "service_updateTask entropy now taskId updates c =
     (let (res, r) = update entropy now taskId updates (taskRepository c);
          c1 = c\<lparr>taskRepository := r\<rparr>
      in case res of
           Inl e \<Rightarrow> (Inl e, c1\<lparr>serviceEvents := serviceEvents c1 @ [ErrorEvent ''updateTask'' e]\<rparr>)
         | Inr None \<Rightarrow> (Inr None, c1)
         | Inr (Some updatedTask) \<Rightarrow>
             (Inr (Some updatedTask), c1\<lparr>serviceEvents := serviceEvents c1 @ [TaskUpdated (Some updatedTask)]\<rparr>))"

definition updateTaskStats :: "string \<Rightarrow> int \<Rightarrow> TaskController \<Rightarrow> (error + Statistics) \<times> TaskController" where
  "updateTaskStats entropy now c =
     (case currentUser c of
        None \<Rightarrow> handleError (TypeError ''Cannot read properties of null'') ''updateTaskStats'' c
      | Some u \<Rightarrow>
          let (stats, r) = getStatistics entropy now (Some (u_id u)) (taskRepository c);
              c1 = c\<lparr>taskRepository := r\<rparr>
          in case stats of
               Inl e \<Rightarrow> handleError e ''updateTaskStats'' c1
             | Inr s \<Rightarrow> (Inr s, c1))"

definition updateTask :: "string \<Rightarrow> int \<Rightarrow> string \<Rightarrow> fieldUpdate list \<Rightarrow> TaskController \<Rightarrow> (error + Task option) \<times> TaskController" where
  "updateTask entropy now taskId updates c =
     (case validateParams [(''taskId'', taskId)] [''taskId''] of
        Some e \<Rightarrow> handleError e ''updateTask'' c
      | None \<Rightarrow>
          let (found, c1) = service_getTaskById entropy now taskId c in
          case found of
            Inl e \<Rightarrow> handleError e ''updateTask'' c1
          | Inr task \<Rightarrow>
              if \<not> canModifyTask c1 task then handleError PermissionDenied ''updateTask'' c1
              else
                let (res, c2) = service_updateTask entropy now taskId updates c1 in
                case res of
                  Inl e \<Rightarrow> handleError e ''updateTask'' c2
                | Inr updatedTask \<Rightarrow>
                    if viewAttached c2
                    then (let (stats, c3) = updateTaskStats entropy now c2 in
                          case stats of
                            Inl e \<Rightarrow> handleError e ''updateTask'' c3
                          | Inr s \<Rightarrow>
                              (Inr updatedTask,
                               c3\<lparr>controllerEvents := controllerEvents c3 @ [TaskUpdated updatedTask]\<rparr>))
                    else (Inr updatedTask,
                          c2\<lparr>controllerEvents := controllerEvents c2 @ [TaskUpdated updatedTask]\<rparr>))"

section \<open>Example data\<close>

text \<open>The default \<open>options = {}\<close> of the constructor, and a task, overdue from time 501 on.\<close>

definition emptyOptions :: TaskData where
  "emptyOptions =
     \<lparr> d_id = None, d_title = None, d_description = None, d_userId = None, d_assignedTo = None,
       d_priority = None, d_category = None, d_tags = None, d_completed = None, d_status = None,
       d_dueDate = None, d_estimatedHours = None, d_actualHours = None, d_notes = None,
       d_attachments = None, d_dependencies = None, d_createdAt = None, d_updatedAt = None,
       d_completedAt = None \<rparr>"

definition exampleTask :: Task where
  "exampleTask =
     \<lparr> t_id = ''task_1'', t_createdAt = 1000, t_title = ''A'', t_description = [],
       t_priority = ''high'', t_completed = False, t_updatedAt = 1000, t_userId = ''u1'',
       t_assignedTo = ''u1'', t_category = ''general'', t_tags = [], t_dueDate = Some 500,
       t_estimatedHours = None, t_actualHours = None, t_status = ''pending'', t_completedAt = None,
       t_notes = [], t_attachments = [], t_dependencies = [] \<rparr>"

definition urgentTask :: Task where
  "urgentTask = exampleTask\<lparr>t_id := ''task_2'', t_priority := ''urgent''\<rparr>"

definition mediumTask :: Task where
  "mediumTask = exampleTask\<lparr>t_id := ''task_3'', t_priority := ''medium''\<rparr>"

definition lowTask :: Task where
  "lowTask = exampleTask\<lparr>t_id := ''task_4'', t_priority := ''low''\<rparr>"

text \<open>Urgent tasks filed under a category that names a property every object inherits.\<close>

definition protoTask :: Task where
  "protoTask = exampleTask\<lparr>t_id := ''task_5'', t_priority := ''urgent'', t_category := ''__proto__''\<rparr>"

definition constructorTask :: Task where
  "constructorTask =
     exampleTask\<lparr>t_id := ''task_6'', t_priority := ''urgent'', t_category := ''constructor''\<rparr>"

text \<open>An entity with a blank title under the id of \<open>exampleTask\<close>.\<close>

definition blankTitleEntity :: Task where
  "blankTitleEntity = exampleTask\<lparr>t_title := '' ''\<rparr>"

text \<open>A controller whose current user neither owns \<open>exampleTask\<close> nor is assigned to it.\<close>

definition exampleController :: TaskController where
  "exampleController =
     \<lparr> currentUser = Some \<lparr>u_id = ''u2'', u_isAdmin = False, u_canManageUsers = True\<rparr>,
       taskRepository = TaskRepository_new [toJSON exampleTask],
       viewAttached = True, serviceEvents = [], controllerEvents = [] \<rparr>"

section \<open>Evaluation lemmas\<close>

lemmas task_model_defs =
  constructor_def validateConstructorParams_def truthy_def trim_def isWhiteSpace_def orElse_def
  validatePriority_def validateCategory_def validateHours_def validateStatus_def validateTags_def
  bindE_def generateId_def toLowerCase_def lowerChar_def fromJSON_def hydrateTask_def toJSON_def

lemma exampleTask_constructed:
  "constructor ''1'' 1000 (Some ''A'') None (Some ''u1'')
     (emptyOptions\<lparr>d_priority := Some ''high'', d_dueDate := Some 500\<rparr>) = Inr exampleTask"
  by (simp add: task_model_defs emptyOptions_def exampleTask_def)

lemma hydrate_exampleTask: "hydrateTask entropy now (toJSON exampleTask) = Inr exampleTask"
  by (simp add: task_model_defs exampleTask_def)

lemma hydrate_priority_tasks:
  "hydrateTask entropy now (toJSON urgentTask) = Inr urgentTask"
  "hydrateTask entropy now (toJSON mediumTask) = Inr mediumTask"
  "hydrateTask entropy now (toJSON lowTask) = Inr lowTask"
  by (simp_all add: task_model_defs exampleTask_def urgentTask_def mediumTask_def lowTask_def)

lemma d_id_toJSON: "d_id (toJSON t) = Some (t_id t)"
  by (simp add: toJSON_def)

lemma validate_exampleTask: "validateTask exampleTask = None"
  by (simp add: validateTask_def exampleTask_def trim_def isWhiteSpace_def)

section \<open>Normal forms of strings\<close>

lemma lowerChar_A: "lowerChar CHR ''A'' = CHR ''a''"
  by code_simp

lemma lowerChar_other:
  assumes "\<not> (65 \<le> (of_char c :: nat) \<and> (of_char c :: nat) \<le> 90)"
  shows "lowerChar c = c"
  using assms by (auto simp: lowerChar_def Let_def)

lemma lowerChar_idem: "lowerChar (lowerChar c) = lowerChar c"
proof (cases "65 \<le> (of_char c :: nat) \<and> (of_char c :: nat) \<le> 90")
  case True
  then have "(of_char (char_of (of_char c + 32 :: nat)) :: nat) = of_char c + 32"
    by (simp add: of_char_of)
  with True show ?thesis
    by (simp add: lowerChar_def Let_def)
next
  case False
  then show ?thesis by (simp add: lowerChar_other)
qed

lemma toLowerCase_idem: "toLowerCase (toLowerCase s) = toLowerCase s"
  by (simp add: toLowerCase_def lowerChar_idem)

lemma dropWhile_trim: "dropWhile isWhiteSpace (trim s) = trim s"
proof -
  let ?a = "dropWhile isWhiteSpace s"
  let ?b = "rev (dropWhile isWhiteSpace (rev ?a))"
  have split: "?a = ?b @ rev (takeWhile isWhiteSpace (rev ?a))"
  proof -
    have "?b @ rev (takeWhile isWhiteSpace (rev ?a))
            = rev (takeWhile isWhiteSpace (rev ?a) @ dropWhile isWhiteSpace (rev ?a))"
      by (simp only: rev_append)
    also have "\<dots> = rev (rev ?a)"
      by (simp only: takeWhile_dropWhile_id)
    also have "\<dots> = ?a"
      by simp
    finally show ?thesis by simp
  qed
  show ?thesis
  proof (cases "?b = []")
    case True
    show ?thesis by (simp only: trim_def True dropWhile.simps)
  next
    case False
    with split have "hd ?b = hd ?a" and "?a \<noteq> []"
      by (metis hd_append2, metis append_is_Nil_conv)
    then have "\<not> isWhiteSpace (hd ?b)"
      by (metis hd_dropWhile)
    with False have "dropWhile isWhiteSpace ?b = ?b"
      by (cases ?b) auto
    then show ?thesis by (simp add: trim_def)
  qed
qed

lemma trim_idem: "trim (trim s) = trim s"
proof -
  have "trim (trim s) = rev (dropWhile isWhiteSpace (rev (trim s)))"
    by (simp add: trim_def [of "trim s"] dropWhile_trim)
  also have "\<dots> = trim s"
    by (simp add: trim_def)
  finally show ?thesis .
qed

lemma isWhiteSpace_lowerChar: "isWhiteSpace (lowerChar c) = isWhiteSpace c"
proof (cases "65 \<le> (of_char c :: nat) \<and> (of_char c :: nat) \<le> 90")
  case True
  then have "(of_char (char_of (of_char c + 32 :: nat)) :: nat) = of_char c + 32"
    by (simp add: of_char_of)
  with True show ?thesis
    by (simp add: lowerChar_def isWhiteSpace_def Let_def)
next
  case False
  then show ?thesis by (auto simp: lowerChar_def Let_def)
qed

lemma trim_toLowerCase: "trim (toLowerCase s) = toLowerCase (trim s)"
proof -
  have d: "dropWhile isWhiteSpace (map lowerChar xs) = map lowerChar (dropWhile isWhiteSpace xs)" for xs
    by (induction xs) (simp_all add: isWhiteSpace_lowerChar)
  show ?thesis
    by (simp add: trim_def toLowerCase_def d rev_map)
qed

lemma normalize_idem: "toLowerCase (trim (toLowerCase (trim s))) = toLowerCase (trim s)"
  by (simp add: trim_toLowerCase trim_idem toLowerCase_idem)


section \<open>Derived state of a task\<close>

text \<open>
  C7. \<open>isOverdue\<close> is true exactly when a due date is set, lies before the current time,
  and the task is not completed; and once \<open>markComplete\<close> has run on an overdue task the
  task is completed and \<open>isOverdue\<close> is false at every later reading of the clock.
\<close>

theorem isOverdue_iff_due_past_and_open:
  "(isOverdue now t \<longleftrightarrow> ((\<exists>d. t_dueDate t = Some d \<and> d < now) \<and> \<not> t_completed t))
   \<and> (isOverdue now t \<longrightarrow>
        t_completed (markComplete clock t) \<and> (\<forall>later. \<not> isOverdue later (markComplete clock t)))"
  by (auto simp: isOverdue_def markComplete_def touch_def)

theorem isOverdue_iff_due_past_and_open_witness:
  "isOverdue 501 exampleTask
   \<and> t_completed (markComplete 502 exampleTask)
   \<and> \<not> isOverdue 503 (markComplete 502 exampleTask)"
proof -
  have overdue: "isOverdue 501 exampleTask"
    by (simp add: isOverdue_def exampleTask_def)
  with isOverdue_iff_due_past_and_open [of 501 exampleTask 502] show ?thesis
    by blast
qed

section \<open>The cache of the repository\<close>

lemma create_success:
  assumes "create now task r = (Inr created, r1)"
  shows "created = task \<and> cacheExpiry r1 = cacheExpiry r
         \<and> cache r1 (t_id task) = Some \<lparr>ce_data = task, ce_timestamp = now\<rparr>"
  using assms
  by (auto simp: create_def getAllTasks_def saveTasks_def split: option.splits if_splits)

lemma update_success:
  assumes "update entropy now ident updates r = (Inr (Some updated), r2)"
  shows "cacheExpiry r2 = cacheExpiry r
         \<and> cache r2 ident = Some \<lparr>ce_data = updated, ce_timestamp = now\<rparr>"
  using assms
  by (auto simp: update_def getAllTasks_def saveTasks_def Let_def split: option.splits sum.splits)

lemma findById_cache_hit:
  assumes "cache r ident = Some entry" and "now - ce_timestamp entry \<le> cacheExpiry r"
  shows "findById entropy now ident r = (Inr (Some (ce_data entry)), r)"
  using assms by (simp add: findById_def getFromCache_def)

text \<open>
  C2. When \<open>create\<close> or \<open>update\<close> has succeeded at time \<open>now\<close>, a \<open>findById\<close> of that id at
  a time \<open>later\<close> no more than the expiry after \<open>now\<close> returns the entity that was written
  and leaves the whole repository as it was: the counter of \<open>load\<close> calls, the persisted
  collection and the cache.
\<close>

theorem findById_after_write_hits_cache:
  "(create now task r = (Inr created, r1) \<and> later - now \<le> cacheExpiry r
      \<longrightarrow> findById entropy later (t_id created) r1 = (Inr (Some created), r1))
   \<and> (update entropy0 now ident updates r = (Inr (Some updated), r2) \<and> later - now \<le> cacheExpiry r
      \<longrightarrow> findById entropy later ident r2 = (Inr (Some updated), r2))"
proof (intro conjI impI)
  assume a: "create now task r = (Inr created, r1) \<and> later - now \<le> cacheExpiry r"
  from a create_success [of now task r created r1]
  show "findById entropy later (t_id created) r1 = (Inr (Some created), r1)"
    using findById_cache_hit [of r1 "t_id task" "\<lparr>ce_data = task, ce_timestamp = now\<rparr>" later entropy]
    by simp
next
  assume a: "update entropy0 now ident updates r = (Inr (Some updated), r2) \<and> later - now \<le> cacheExpiry r"
  from a update_success [of entropy0 now ident updates r updated r2]
  show "findById entropy later ident r2 = (Inr (Some updated), r2)"
    using findById_cache_hit [of r2 ident "\<lparr>ce_data = updated, ce_timestamp = now\<rparr>" later entropy]
    by simp
qed

theorem findById_after_write_hits_cache_witness:
  "findById ''9'' 300000 ''task_1'' (snd (create 1000 exampleTask (TaskRepository_new [])))
     = (Inr (Some exampleTask), snd (create 1000 exampleTask (TaskRepository_new [])))
   \<and> loadCalls (snd (create 1000 exampleTask (TaskRepository_new []))) = 1
   \<and> findById ''9'' 300000 ''task_1''
        (snd (update ''8'' 2000 ''task_1'' [Upd_status ''blocked''] (TaskRepository_new [toJSON exampleTask])))
     = (Inr (Some (exampleTask\<lparr>t_status := ''blocked'', t_updatedAt := 2000\<rparr>)),
        snd (update ''8'' 2000 ''task_1'' [Upd_status ''blocked''] (TaskRepository_new [toJSON exampleTask])))"
proof -
  let ?r = "TaskRepository_new []"
  let ?q = "TaskRepository_new [toJSON exampleTask]"
  have t: "t_id exampleTask = ''task_1''"
    by (simp add: exampleTask_def)
  have c: "fst (create 1000 exampleTask ?r) = Inr exampleTask"
    by (simp add: create_def validate_exampleTask getAllTasks_def TaskRepository_new_def Let_def t)
  have l: "loadCalls (snd (create 1000 exampleTask ?r)) = 1"
    by (simp add: create_def validate_exampleTask getAllTasks_def saveTasks_def
        TaskRepository_new_def Let_def t)
  have s: "setStatus 2000 ''blocked'' exampleTask = Inr (exampleTask\<lparr>t_status := ''blocked''\<rparr>)"
    by (simp add: setStatus_def validateStatus_def bindE_def exampleTask_def)
  have u: "fst (update ''8'' 2000 ''task_1'' [Upd_status ''blocked''] ?q)
             = Inr (Some (exampleTask\<lparr>t_status := ''blocked'', t_updatedAt := 2000\<rparr>))"
    by (simp add: update_def getAllTasks_def TaskRepository_new_def d_id_toJSON t
        hydrate_exampleTask s bindE_def Let_def)
  have e: "cacheExpiry ?r = 300000" "cacheExpiry ?q = 300000"
    by (simp_all add: TaskRepository_new_def)
  from c have c': "create 1000 exampleTask ?r = (Inr exampleTask, snd (create 1000 exampleTask ?r))"
    by (simp add: prod_eq_iff)
  from u have u': "update ''8'' 2000 ''task_1'' [Upd_status ''blocked''] ?q
      = (Inr (Some (exampleTask\<lparr>t_status := ''blocked'', t_updatedAt := 2000\<rparr>)),
         snd (update ''8'' 2000 ''task_1'' [Upd_status ''blocked''] ?q))"
    by (simp add: prod_eq_iff)
  from findById_after_write_hits_cache
         [where now = 1000 and task = exampleTask and r = ?r and created = exampleTask
            and ?r1.0 = "snd (create 1000 exampleTask ?r)" and later = 300000 and entropy = "''9''"]
       c' e t
  have first: "findById ''9'' 300000 ''task_1'' (snd (create 1000 exampleTask ?r))
                 = (Inr (Some exampleTask), snd (create 1000 exampleTask ?r))"
    by simp
  from findById_after_write_hits_cache
         [where now = 2000 and r = ?q and later = 300000 and entropy = "''9''"
            and ?entropy0.0 = "''8''" and ident = "''task_1''" and updates = "[Upd_status ''blocked'']"
            and updated = "exampleTask\<lparr>t_status := ''blocked'', t_updatedAt := 2000\<rparr>"
            and ?r2.0 = "snd (update ''8'' 2000 ''task_1'' [Upd_status ''blocked''] ?q)"]
       u' e
  have second: "findById ''9'' 300000 ''task_1''
                  (snd (update ''8'' 2000 ''task_1'' [Upd_status ''blocked''] ?q))
                = (Inr (Some (exampleTask\<lparr>t_status := ''blocked'', t_updatedAt := 2000\<rparr>)),
                   snd (update ''8'' 2000 ''task_1'' [Upd_status ''blocked''] ?q))"
    by simp
  from first l second show ?thesis by simp
qed

lemma getFromCache_expired:
  assumes "c ident = Some entry" and "now - ce_timestamp entry > expiry"
  shows "getFromCache now expiry c ident = (None, c(ident := None))"
  using assms by (simp add: getFromCache_def)

lemma getFromCache_absent:
  assumes "c ident = None"
  shows "getFromCache now expiry c ident = (None, c)"
  using assms by (simp add: getFromCache_def)

lemma findById_miss:
  assumes "getFromCache now (cacheExpiry r) (cache r) ident = (None, c)"
  shows "findById entropy now ident r =
     (case find (\<lambda>row. d_id row = Some ident) (storage r) of
        None \<Rightarrow> (Inr None, r\<lparr>cache := c, loadCalls := loadCalls r + 1\<rparr>)
      | Some row \<Rightarrow>
          (case hydrateTask entropy now row of
             Inl e \<Rightarrow> (Inl e, r\<lparr>cache := c, loadCalls := loadCalls r + 1\<rparr>)
           | Inr task \<Rightarrow>
               (Inr (Some task),
                r\<lparr>cache := c(ident \<mapsto> \<lparr>ce_data = task, ce_timestamp = now\<rparr>),
                   loadCalls := loadCalls r + 1\<rparr>)))"
  using assms
  by (simp add: findById_def getAllTasks_def split: option.splits sum.splits)

lemma UserRepository_findById_miss:
  assumes "getFromCache now (ur_cacheExpiry r) (ur_cache r) ident = (None, c)"
  shows "UserRepository_findById hydrateUser rowId now ident r =
     (case find (\<lambda>row. rowId row = Some ident) (ur_storage r) of
        None \<Rightarrow> (Inr None, r\<lparr>ur_cache := c, ur_loadCalls := ur_loadCalls r + 1\<rparr>)
      | Some row \<Rightarrow>
          (case hydrateUser row of
             Inl e \<Rightarrow> (Inl e, r\<lparr>ur_cache := c, ur_loadCalls := ur_loadCalls r + 1\<rparr>)
           | Inr user \<Rightarrow>
               (Inr (Some user),
                r\<lparr>ur_cache := c(ident \<mapsto> \<lparr>ce_data = user, ce_timestamp = now\<rparr>),
                   ur_loadCalls := ur_loadCalls r + 1\<rparr>)))"
  using assms
  by (simp add: UserRepository_findById_def getAllUsers_def split: option.splits sum.splits)

text \<open>
  C3. When an id has a cache entry whose time stamp lies more than the expiry before the
  current time, \<open>findById\<close> behaves exactly as on the repository with that entry deleted:
  it makes one \<open>load\<close> call, its result is the row of the persisted collection with that
  id, hydrated (or \<open>null\<close> when there is none), and afterwards the cache holds for the id
  either nothing or the freshly hydrated entity stamped with the current time. This holds
  for the task repository and for the user repository alike; the expiry is 5 minutes for
  the former and 10 minutes for the latter, in milliseconds.
\<close>

theorem findById_after_expiry_reloads:
  "(cache r ident = Some entry \<and> now - ce_timestamp entry > cacheExpiry r \<longrightarrow>
      findById entropy now ident r = findById entropy now ident (r\<lparr>cache := (cache r)(ident := None)\<rparr>)
      \<and> fst (findById entropy now ident r)
          = (case find (\<lambda>row. d_id row = Some ident) (storage r) of
               None \<Rightarrow> Inr None
             | Some row \<Rightarrow> (case hydrateTask entropy now row of
                              Inl e \<Rightarrow> Inl e | Inr task \<Rightarrow> Inr (Some task)))
      \<and> loadCalls (snd (findById entropy now ident r)) = loadCalls r + 1
      \<and> cache (snd (findById entropy now ident r)) ident
          = (case fst (findById entropy now ident r) of
               Inr (Some task) \<Rightarrow> Some \<lparr>ce_data = task, ce_timestamp = now\<rparr>
             | _ \<Rightarrow> None))
   \<and> (ur_cache q ident = Some uentry \<and> now - ce_timestamp uentry > ur_cacheExpiry q \<longrightarrow>
      UserRepository_findById hydrateUser rowId now ident q
        = UserRepository_findById hydrateUser rowId now ident (q\<lparr>ur_cache := (ur_cache q)(ident := None)\<rparr>)
      \<and> fst (UserRepository_findById hydrateUser rowId now ident q)
          = (case find (\<lambda>row. rowId row = Some ident) (ur_storage q) of
               None \<Rightarrow> Inr None
             | Some row \<Rightarrow> (case hydrateUser row of
                              Inl e \<Rightarrow> Inl e | Inr user \<Rightarrow> Inr (Some user)))
      \<and> ur_loadCalls (snd (UserRepository_findById hydrateUser rowId now ident q)) = ur_loadCalls q + 1
      \<and> ur_cache (snd (UserRepository_findById hydrateUser rowId now ident q)) ident
          = (case fst (UserRepository_findById hydrateUser rowId now ident q) of
               Inr (Some user) \<Rightarrow> Some \<lparr>ce_data = user, ce_timestamp = now\<rparr>
             | _ \<Rightarrow> None))
   \<and> cacheExpiry (TaskRepository_new persisted) = 5 * 60 * 1000
   \<and> ur_cacheExpiry (UserRepository_new upersisted :: ('row, 'user) UserRepository) = 10 * 60 * 1000"
proof (intro conjI impI)
  assume a: "cache r ident = Some entry \<and> now - ce_timestamp entry > cacheExpiry r"
  let ?c = "(cache r)(ident := None)"
  have g: "getFromCache now (cacheExpiry r) (cache r) ident = (None, ?c)"
    using a by (simp add: getFromCache_expired)
  have g': "getFromCache now (cacheExpiry (r\<lparr>cache := ?c\<rparr>)) (cache (r\<lparr>cache := ?c\<rparr>)) ident = (None, ?c)"
    by (simp add: getFromCache_absent)
  note m = findById_miss [OF g, of entropy] findById_miss [OF g', of entropy]
  show "findById entropy now ident r = findById entropy now ident (r\<lparr>cache := ?c\<rparr>)"
    by (simp add: m split: option.splits sum.splits)
  show "fst (findById entropy now ident r)
          = (case find (\<lambda>row. d_id row = Some ident) (storage r) of
               None \<Rightarrow> Inr None
             | Some row \<Rightarrow> (case hydrateTask entropy now row of
                              Inl e \<Rightarrow> Inl e | Inr task \<Rightarrow> Inr (Some task)))"
    by (simp add: m split: option.splits sum.splits)
  show "loadCalls (snd (findById entropy now ident r)) = loadCalls r + 1"
    by (simp add: m split: option.splits sum.splits)
  show "cache (snd (findById entropy now ident r)) ident
          = (case fst (findById entropy now ident r) of
               Inr (Some task) \<Rightarrow> Some \<lparr>ce_data = task, ce_timestamp = now\<rparr>
             | _ \<Rightarrow> None)"
    by (simp add: m split: option.splits sum.splits)
next
  assume a: "ur_cache q ident = Some uentry \<and> now - ce_timestamp uentry > ur_cacheExpiry q"
  let ?c = "(ur_cache q)(ident := None)"
  have g: "getFromCache now (ur_cacheExpiry q) (ur_cache q) ident = (None, ?c)"
    using a by (simp add: getFromCache_expired)
  have g': "getFromCache now (ur_cacheExpiry (q\<lparr>ur_cache := ?c\<rparr>)) (ur_cache (q\<lparr>ur_cache := ?c\<rparr>)) ident = (None, ?c)"
    by (simp add: getFromCache_absent)
  note m = UserRepository_findById_miss [OF g, of hydrateUser rowId]
           UserRepository_findById_miss [OF g', of hydrateUser rowId]
  show "UserRepository_findById hydrateUser rowId now ident q
        = UserRepository_findById hydrateUser rowId now ident (q\<lparr>ur_cache := ?c\<rparr>)"
    by (simp add: m split: option.splits sum.splits)
  show "fst (UserRepository_findById hydrateUser rowId now ident q)
          = (case find (\<lambda>row. rowId row = Some ident) (ur_storage q) of
               None \<Rightarrow> Inr None
             | Some row \<Rightarrow> (case hydrateUser row of
                              Inl e \<Rightarrow> Inl e | Inr user \<Rightarrow> Inr (Some user)))"
    by (simp add: m split: option.splits sum.splits)
  show "ur_loadCalls (snd (UserRepository_findById hydrateUser rowId now ident q)) = ur_loadCalls q + 1"
    by (simp add: m split: option.splits sum.splits)
  show "ur_cache (snd (UserRepository_findById hydrateUser rowId now ident q)) ident
          = (case fst (UserRepository_findById hydrateUser rowId now ident q) of
               Inr (Some user) \<Rightarrow> Some \<lparr>ce_data = user, ce_timestamp = now\<rparr>
             | _ \<Rightarrow> None)"
    by (simp add: m split: option.splits sum.splits)
next
  show "cacheExpiry (TaskRepository_new persisted) = 5 * 60 * 1000"
    by (simp add: TaskRepository_new_def)
  show "ur_cacheExpiry (UserRepository_new upersisted :: ('row, 'user) UserRepository) = 10 * 60 * 1000"
    by (simp add: UserRepository_new_def)
qed

theorem findById_after_expiry_reloads_witness:
  "fst (findById ''9'' 300001 ''task_1''
         ((TaskRepository_new [toJSON exampleTask])
            \<lparr>cache := [''task_1'' \<mapsto> \<lparr>ce_data = urgentTask, ce_timestamp = 0\<rparr>]\<rparr>))
     = Inr (Some exampleTask)
   \<and> loadCalls (snd (findById ''9'' 300001 ''task_1''
         ((TaskRepository_new [toJSON exampleTask])
            \<lparr>cache := [''task_1'' \<mapsto> \<lparr>ce_data = urgentTask, ce_timestamp = 0\<rparr>]\<rparr>))) = 1
   \<and> fst (UserRepository_findById Inr Some 600001 ''u1''
         ((UserRepository_new [''u1''])
            \<lparr>ur_cache := [''u1'' \<mapsto> \<lparr>ce_data = ''stale'', ce_timestamp = 0\<rparr>]\<rparr>))
     = Inr (Some ''u1'')
   \<and> ur_loadCalls (snd (UserRepository_findById Inr Some 600001 ''u1''
         ((UserRepository_new [''u1''])
            \<lparr>ur_cache := [''u1'' \<mapsto> \<lparr>ce_data = ''stale'', ce_timestamp = 0\<rparr>]\<rparr>))) = 1"
proof -
  let ?r = "(TaskRepository_new [toJSON exampleTask])
              \<lparr>cache := [''task_1'' \<mapsto> \<lparr>ce_data = urgentTask, ce_timestamp = 0\<rparr>]\<rparr>"
  let ?q = "(UserRepository_new [''u1''])
              \<lparr>ur_cache := [''u1'' \<mapsto> \<lparr>ce_data = ''stale'', ce_timestamp = 0\<rparr>]\<rparr>
            :: (string, string) UserRepository"
  have t: "t_id exampleTask = ''task_1''"
    by (simp add: exampleTask_def)
  have stale: "cache ?r ''task_1'' = Some \<lparr>ce_data = urgentTask, ce_timestamp = 0\<rparr>
      \<and> 300001 - ce_timestamp \<lparr>ce_data = urgentTask, ce_timestamp = 0\<rparr> > cacheExpiry ?r"
    by (simp add: TaskRepository_new_def)
  have ustale: "ur_cache ?q ''u1'' = Some \<lparr>ce_data = ''stale'', ce_timestamp = 0\<rparr>
      \<and> 600001 - ce_timestamp \<lparr>ce_data = ''stale'', ce_timestamp = 0\<rparr> > ur_cacheExpiry ?q"
    by (simp add: UserRepository_new_def)
  from findById_after_expiry_reloads
         [where r = ?r and ident = "''task_1''" and now = 300001 and entropy = "''9''"
            and entry = "\<lparr>ce_data = urgentTask, ce_timestamp = 0\<rparr>",
          THEN conjunct1, THEN mp, OF stale, THEN conjunct2]
  have tasks: "fst (findById ''9'' 300001 ''task_1'' ?r) = Inr (Some exampleTask)
      \<and> loadCalls (snd (findById ''9'' 300001 ''task_1'' ?r)) = 1"
    by (simp add: TaskRepository_new_def d_id_toJSON t hydrate_exampleTask)
  from findById_after_expiry_reloads
         [where q = ?q and ident = "''u1''" and now = 600001 and hydrateUser = Inr and rowId = Some
            and uentry = "\<lparr>ce_data = ''stale'', ce_timestamp = 0\<rparr>",
          THEN conjunct2, THEN conjunct1, THEN mp, OF ustale, THEN conjunct2]
  have users: "fst (UserRepository_findById Inr Some 600001 ''u1'' ?q) = Inr (Some ''u1'')
      \<and> ur_loadCalls (snd (UserRepository_findById Inr Some 600001 ''u1'' ?q)) = 1"
    by (simp add: UserRepository_new_def)
  from tasks users show ?thesis by simp
qed

section \<open>Creating under an id that exists\<close>

text \<open>Every task the constructor builds passes \<open>_validateTask\<close>.\<close>

lemma constructor_fields:
  assumes "constructor entropy now title description userId options = Inr t"
  shows "validateConstructorParams title description userId = None
         \<and> t_title t = trim (the title) \<and> t_userId t = the userId"
  using assms
  by (auto simp: constructor_def bindE_def split: option.splits sum.splits)

lemma constructor_passes_validateTask:
  assumes "constructor entropy now title description userId options = Inr t"
  shows "validateTask t = None"
proof -
  from constructor_fields [OF assms]
  have v: "validateConstructorParams title description userId = None"
    and f: "t_title t = trim (the title)" "t_userId t = the userId"
    by simp_all
  from v have "trim (the title) \<noteq> []" and "truthy userId"
    by (auto simp: validateConstructorParams_def split: if_splits)
  then show ?thesis
    by (auto simp: validateTask_def f trim_idem truthy_def split: option.splits)
qed

lemma constructor_id_not_empty:
  assumes "constructor entropy now title description userId options = Inr t"
  shows "t_id t \<noteq> []"
proof -
  from assms have "t_id t = orElse (d_id options) (generateId entropy)"
    by (auto simp: constructor_def bindE_def split: option.splits sum.splits)
  then show ?thesis
    by (simp add: orElse_def generateId_def split: option.splits)
qed

text \<open>
  A task the constructor built, created under the id of a persisted row, gets the
  duplicate error.
\<close>

lemma create_duplicate_id_of_constructed_task:
  assumes built: "constructor entropy created title description userId options = Inr task"
    and dup: "\<exists>row \<in> set (storage r). d_id row = Some (t_id task)"
  shows "fst (create now task r) = Inl (DuplicateId (t_id task))"
  using dup constructor_passes_validateTask [OF built] constructor_id_not_empty [OF built]
  by (simp add: create_def getAllTasks_def)

text \<open>
  \<open>_validateTask\<close> runs before the collection is read. An entity with a blank title that
  carries the id of a persisted row is therefore refused for its title, not as a
  duplicate.
\<close>

theorem create_duplicate_id_blank_title_counterexample:
  "(\<exists>row \<in> set (storage (TaskRepository_new [toJSON exampleTask])). d_id row = Some (t_id blankTitleEntity))
   \<and> t_id blankTitleEntity \<noteq> []
   \<and> fst (create 2000 blankTitleEntity (TaskRepository_new [toJSON exampleTask])) = Inl RepoTitleRequired
   \<and> fst (create 2000 blankTitleEntity (TaskRepository_new [toJSON exampleTask]))
       \<noteq> Inl (DuplicateId (t_id blankTitleEntity))"
proof -
  have ident: "t_id blankTitleEntity = ''task_1''"
    by (simp add: blankTitleEntity_def exampleTask_def)
  have blank: "validateTask blankTitleEntity = Some RepoTitleRequired"
    by (simp add: validateTask_def blankTitleEntity_def trim_def isWhiteSpace_def)
  have refused: "fst (create 2000 blankTitleEntity (TaskRepository_new [toJSON exampleTask]))
                   = Inl RepoTitleRequired"
    by (simp add: create_def blank)
  have row: "d_id (toJSON exampleTask) = Some ''task_1''"
    by (simp add: d_id_toJSON exampleTask_def)
  from ident refused row show ?thesis
    by (simp add: TaskRepository_new_def)
qed

text \<open>
  C5. \<open>create\<close> of an entity whose id is not empty and is the id of a row of the persisted
  collection fails and leaves the persisted collection (the same rows, hence the same
  length), the counter of \<open>save\<close> calls and the cache unchanged. The failure is the
  duplicate error when the entity passes \<open>_validateTask\<close>, and the error of
  \<open>_validateTask\<close> otherwise, since validation comes first.
\<close>

theorem create_duplicate_id_rejected:
  assumes dup: "\<exists>row \<in> set (storage r). d_id row = Some (t_id task)"
    and explicit: "t_id task \<noteq> []"
  shows "fst (create now task r)
           = Inl (case validateTask task of Some e \<Rightarrow> e | None \<Rightarrow> DuplicateId (t_id task))
         \<and> storage (snd (create now task r)) = storage r
         \<and> length (storage (snd (create now task r))) = length (storage r)
         \<and> saveCalls (snd (create now task r)) = saveCalls r
         \<and> cache (snd (create now task r)) = cache r"
  using assms
  by (cases "validateTask task") (auto simp: create_def getAllTasks_def)

theorem create_duplicate_id_rejected_witness:
  "fst (create 2000 exampleTask (TaskRepository_new [toJSON exampleTask])) = Inl (DuplicateId ''task_1'')
   \<and> storage (snd (create 2000 exampleTask (TaskRepository_new [toJSON exampleTask]))) = [toJSON exampleTask]
   \<and> saveCalls (snd (create 2000 exampleTask (TaskRepository_new [toJSON exampleTask]))) = 0"
proof -
  let ?r = "TaskRepository_new [toJSON exampleTask]"
  have dup: "\<exists>row \<in> set (storage ?r). d_id row = Some (t_id exampleTask)"
    by (simp add: TaskRepository_new_def d_id_toJSON)
  have explicit: "t_id exampleTask \<noteq> []"
    by (simp add: exampleTask_def)
  have t: "t_id exampleTask = ''task_1''"
    by (simp add: exampleTask_def)
  from create_duplicate_id_rejected [OF dup explicit, of 2000] show ?thesis
    by (simp add: validate_exampleTask t TaskRepository_new_def)
qed

section \<open>Authorization in the controller\<close>

lemma findById_keeps_persistence:
  "storage (snd (findById entropy now ident r)) = storage r
   \<and> saveCalls (snd (findById entropy now ident r)) = saveCalls r"
  by (simp add: findById_def getFromCache_def getAllTasks_def Let_def
      split: option.splits sum.splits prod.splits)

text \<open>
  C4. When the task fetched for a non-empty \<open>taskId\<close> has an owner and an assignee other
  than the current user, and the current user is no administrator, \<open>updateTask\<close> throws the
  permission error, and the repository's counter of \<open>save\<close> calls and the persisted
  collection are as before; the service was not reached (it notified nobody), and the
  controller emitted one error event for the operation.
\<close>

theorem updateTask_denied_without_permission:
  assumes given: "taskId \<noteq> []"
    and fetched: "fst (findById entropy now taskId (taskRepository c)) = Inr (Some task)"
    and acting: "currentUser c = Some u"
    and stranger: "t_userId task \<noteq> u_id u" "t_assignedTo task \<noteq> u_id u" "\<not> u_isAdmin u"
  shows "fst (updateTask entropy now taskId updates c) = Inl PermissionDenied
     \<and> saveCalls (taskRepository (snd (updateTask entropy now taskId updates c)))
         = saveCalls (taskRepository c)
     \<and> storage (taskRepository (snd (updateTask entropy now taskId updates c)))
         = storage (taskRepository c)
     \<and> serviceEvents (snd (updateTask entropy now taskId updates c)) = serviceEvents c
     \<and> controllerEvents (snd (updateTask entropy now taskId updates c))
         = controllerEvents c @ [ErrorEvent ''updateTask'' PermissionDenied]"
proof -
  obtain found r1 where f: "findById entropy now taskId (taskRepository c) = (found, r1)"
    by (cases "findById entropy now taskId (taskRepository c)")
  with fetched have found: "found = Inr (Some task)" by simp
  from f findById_keeps_persistence [of entropy now taskId "taskRepository c"]
  have keep: "storage r1 = storage (taskRepository c)" "saveCalls r1 = saveCalls (taskRepository c)"
    by simp_all
  have params: "validateParams [(''taskId'', taskId)] [''taskId''] = None"
    using given by (simp add: validateParams_def)
  have denied: "\<not> canModifyTask (c\<lparr>taskRepository := r1\<rparr>) (Some task)"
    using acting stranger by (simp add: canModifyTask_def)
  have "updateTask entropy now taskId updates c
          = handleError PermissionDenied ''updateTask'' (c\<lparr>taskRepository := r1\<rparr>)"
    using denied by (simp add: updateTask_def params service_getTaskById_def f found)
  then show ?thesis
    by (simp add: handleError_def keep)
qed

theorem updateTask_denied_without_permission_witness:
  "fst (updateTask ''9'' 2000 ''task_1'' [Upd_title ''B''] exampleController) = Inl PermissionDenied
   \<and> saveCalls (taskRepository (snd (updateTask ''9'' 2000 ''task_1'' [Upd_title ''B''] exampleController))) = 0
   \<and> storage (taskRepository (snd (updateTask ''9'' 2000 ''task_1'' [Upd_title ''B''] exampleController)))
       = [toJSON exampleTask]"
proof -
  let ?u = "\<lparr>u_id = ''u2'', u_isAdmin = False, u_canManageUsers = True\<rparr>"
  have t: "t_id exampleTask = ''task_1''" "t_userId exampleTask = ''u1''" "t_assignedTo exampleTask = ''u1''"
    by (simp_all add: exampleTask_def)
  have miss: "getFromCache 2000 (cacheExpiry (taskRepository exampleController))
                (cache (taskRepository exampleController)) ''task_1''
              = (None, cache (taskRepository exampleController))"
    by (simp add: getFromCache_absent exampleController_def TaskRepository_new_def)
  have fetched: "fst (findById ''9'' 2000 ''task_1'' (taskRepository exampleController))
                   = Inr (Some exampleTask)"
    by (simp add: findById_miss [OF miss])
       (simp add: exampleController_def TaskRepository_new_def d_id_toJSON t hydrate_exampleTask)
  have acting: "currentUser exampleController = Some ?u"
    by (simp add: exampleController_def)
  from updateTask_denied_without_permission
         [of "''task_1''" "''9''" 2000 exampleController exampleTask ?u "[Upd_title ''B'']",
          OF _ fetched acting]
  show ?thesis
    by (simp add: t) (simp add: exampleController_def TaskRepository_new_def)
qed

section \<open>Sorting by priority\<close>

lemma compareTasks_priority_desc:
  "compareTasks now ''priority'' ''desc'' a b =
     (if stringLess (toLowerCase (t_priority b)) (toLowerCase (t_priority a)) then - 1
      else if stringLess (toLowerCase (t_priority a)) (toLowerCase (t_priority b)) then 1
      else 0)"
  by (simp add: compareTasks_def property_def isString_def lowered_def jsGreater_def jsLess_def
      toPrimitive_def Let_def)

lemma lower_priorities:
  "toLowerCase ''low'' = ''low''" "toLowerCase ''medium'' = ''medium''"
  "toLowerCase ''urgent'' = ''urgent''"
  by (simp_all add: toLowerCase_def lowerChar_def)

lemma findAll_eq:
  "findAll entropy now options r =
     (case hydrateAll entropy now (storage r) of
        Inl e \<Rightarrow> (Inl e, r\<lparr>loadCalls := loadCalls r + 1\<rparr>)
      | Inr hydrated \<Rightarrow> (Inr (applyOptions now options hydrated), r\<lparr>loadCalls := loadCalls r + 1\<rparr>))"
  by (simp add: findAll_def getAllTasks_def split: sum.splits)

text \<open>
  C8. On a persisted collection of three rows that hydrate to tasks of priority \<open>low\<close>,
  \<open>urgent\<close> and \<open>medium\<close>, in this order, \<open>findAll({sortBy: 'priority', sortOrder: 'desc'})\<close>
  returns the three tasks in the order urgent, medium, low.
\<close>

theorem findAll_priority_desc_orders_urgent_medium_low:
  assumes rows: "storage r = [row1, row2, row3]"
    and h1: "hydrateTask entropy now row1 = Inr t1"
    and h2: "hydrateTask entropy now row2 = Inr t2"
    and h3: "hydrateTask entropy now row3 = Inr t3"
    and p1: "t_priority t1 = ''low''"
    and p2: "t_priority t2 = ''urgent''"
    and p3: "t_priority t3 = ''medium''"
  shows "fst (findAll entropy now
               (noOptions\<lparr>o_sortBy := Some ''priority'', o_sortOrder := Some ''desc''\<rparr>) r)
         = Inr [t2, t3, t1]"
proof -
  let ?cmp = "compareTasks now ''priority'' ''desc''"
  have hyd: "hydrateAll entropy now (storage r) = Inr [t1, t2, t3]"
    by (simp add: rows h1 h2 h3 bindE_def)
  have c23: "?cmp t2 t3 = - 1"
    by (simp add: compareTasks_priority_desc p2 p3 lower_priorities)
  have c12: "?cmp t1 t2 = 1"
    by (simp add: compareTasks_priority_desc p1 p2 lower_priorities)
  have c13: "?cmp t1 t3 = 1"
    by (simp add: compareTasks_priority_desc p1 p3 lower_priorities)
  have sorted: "stableSort ?cmp [t1, t2, t3] = [t2, t3, t1]"
    by (simp add: stableSort_def c23 c12 c13)
  have "applyOptions now (noOptions\<lparr>o_sortBy := Some ''priority'', o_sortOrder := Some ''desc''\<rparr>)
          [t1, t2, t3] = [t2, t3, t1]"
    by (simp add: applyOptions_def noOptions_def truthy_def positive_def sortTasks_def sorted)
  then show ?thesis
    by (simp add: findAll_eq hyd)
qed

theorem findAll_priority_desc_orders_urgent_medium_low_witness:
  "fst (findAll ''9'' 2000 (noOptions\<lparr>o_sortBy := Some ''priority'', o_sortOrder := Some ''desc''\<rparr>)
         (TaskRepository_new [toJSON lowTask, toJSON urgentTask, toJSON mediumTask]))
     = Inr [urgentTask, mediumTask, lowTask]"
proof -
  have rows: "storage (TaskRepository_new [toJSON lowTask, toJSON urgentTask, toJSON mediumTask])
                = [toJSON lowTask, toJSON urgentTask, toJSON mediumTask]"
    by (simp add: TaskRepository_new_def)
  have p: "t_priority lowTask = ''low''" "t_priority urgentTask = ''urgent''"
      "t_priority mediumTask = ''medium''"
    by (simp_all add: lowTask_def urgentTask_def mediumTask_def)
  from findAll_priority_desc_orders_urgent_medium_low
         [OF rows hydrate_priority_tasks(3) hydrate_priority_tasks(1) hydrate_priority_tasks(2) p]
  show ?thesis .
qed

section \<open>Statistics by priority\<close>

lemma inheritedText_proto: "inheritedText ''__proto__'' = Some ''[object Object]''"
  by (simp add: inheritedText_def)

lemma countCategory_other_key:
  assumes "orElse (Some (t_category t)) ''uncategorized'' \<noteq> k"
  shows "countCategory t m k = m k"
  using assms by (simp add: countCategory_def Let_def)

lemma countCategory_cong:
  assumes "m k = m' k"
  shows "countCategory t m k = countCategory t m' k"
  using assms by (auto simp: countCategory_def Let_def)

lemma fold_countCategory_cong:
  assumes "m k = m' k"
  shows "fold countCategory ts m k = fold countCategory ts m' k"
  using assms
proof (induction ts arbitrary: m m')
  case Nil
  then show ?case by simp
next
  case (Cons t ts)
  from Cons.prems have "countCategory t m k = countCategory t m' k"
    by (rule countCategory_cong)
  then have "fold countCategory ts (countCategory t m) k = fold countCategory ts (countCategory t m') k"
    by (rule Cons.IH)
  then show ?case by simp
qed

lemma fold_countCategory_skip:
  assumes "orElse (Some (t_category t)) ''uncategorized'' \<noteq> k"
  shows "fold countCategory (xs @ t # ys) m k = fold countCategory (xs @ ys) m k"
proof -
  have "countCategory t (fold countCategory xs m) k = fold countCategory xs m k"
    using assms by (rule countCategory_other_key)
  then have "fold countCategory ys (countCategory t (fold countCategory xs m)) k
               = fold countCategory ys (fold countCategory xs m) k"
    by (rule fold_countCategory_cong)
  then show ?thesis by simp
qed

lemma countCategory_own_key:
  assumes "inheritedText k = None" and "\<forall>s. m k \<noteq> Some (Text s)"
    and "orElse (Some (t_category t)) ''uncategorized'' = k"
  shows "countCategory t m k = Some (Count ((case m k of Some (Count j) \<Rightarrow> j | _ \<Rightarrow> 0) + 1))"
proof -
  from assms(1) have "k \<noteq> ''__proto__''"
    using inheritedText_proto by auto
  with assms show ?thesis
    by (auto simp: countCategory_def Let_def split: option.splits bucket.splits)
qed

lemma fold_countCategory_count:
  assumes "inheritedText k = None" and "\<forall>s. m k \<noteq> Some (Text s)"
  shows "fold countCategory ts m k =
     (if (\<forall>t \<in> set ts. orElse (Some (t_category t)) ''uncategorized'' \<noteq> k) then m k
      else Some (Count ((case m k of Some (Count j) \<Rightarrow> j | _ \<Rightarrow> 0)
                 + length (filter (\<lambda>t. orElse (Some (t_category t)) ''uncategorized'' = k) ts))))"
  using assms(2)
proof (induction ts arbitrary: m)
  case Nil
  then show ?case by simp
next
  case (Cons t ts)
  show ?case
  proof (cases "orElse (Some (t_category t)) ''uncategorized'' = k")
    case True
    note own = countCategory_own_key [where k = k and m = m and t = t, OF assms(1) Cons.prems True]
    then have "\<forall>s. countCategory t m k \<noteq> Some (Text s)"
      by simp
    then have "fold countCategory ts (countCategory t m) k =
       (if (\<forall>t \<in> set ts. orElse (Some (t_category t)) ''uncategorized'' \<noteq> k)
        then countCategory t m k
        else Some (Count ((case countCategory t m k of Some (Count j) \<Rightarrow> j | _ \<Rightarrow> 0)
               + length (filter (\<lambda>t. orElse (Some (t_category t)) ''uncategorized'' = k) ts))))"
      by (rule Cons.IH)
    with own True show ?thesis
      by simp
  next
    case False
    then have same: "countCategory t m k = m k"
      by (rule countCategory_other_key)
    with Cons.prems have "\<forall>s. countCategory t m k \<noteq> Some (Text s)"
      by simp
    then have "fold countCategory ts (countCategory t m) k =
       (if (\<forall>t \<in> set ts. orElse (Some (t_category t)) ''uncategorized'' \<noteq> k)
        then countCategory t m k
        else Some (Count ((case countCategory t m k of Some (Count j) \<Rightarrow> j | _ \<Rightarrow> 0)
               + length (filter (\<lambda>t. orElse (Some (t_category t)) ''uncategorized'' = k) ts))))"
      by (rule Cons.IH)
    with same False show ?thesis
      by simp
  qed
qed

lemma byCategory_insert:
  assumes "inheritedText (orElse (Some (t_category t)) ''uncategorized'') = None"
  shows "fold countCategory (xs @ t # ys) Map.empty =
     (fold countCategory (xs @ ys) Map.empty)
       (orElse (Some (t_category t)) ''uncategorized'' \<mapsto>
          Count ((case fold countCategory (xs @ ys) Map.empty (orElse (Some (t_category t)) ''uncategorized'') of
                    Some (Count n) \<Rightarrow> n | _ \<Rightarrow> 0) + 1))"
proof (rule ext)
  fix k
  let ?key = "orElse (Some (t_category t)) ''uncategorized''"
  show "fold countCategory (xs @ t # ys) Map.empty k =
     ((fold countCategory (xs @ ys) Map.empty)
       (?key \<mapsto> Count ((case fold countCategory (xs @ ys) Map.empty ?key of
                            Some (Count n) \<Rightarrow> n | _ \<Rightarrow> 0) + 1))) k"
  proof (cases "?key = k")
    case False
    then show ?thesis
      by (simp add: fold_countCategory_skip [OF False] del: fold_append)
  next
    case True
    have none: "\<forall>s. (Map.empty :: string \<rightharpoonup> bucket) ?key \<noteq> Some (Text s)"
      by simp
    note closed = fold_countCategory_count [OF assms none]
    show ?thesis
      unfolding True [symmetric] closed by auto
  qed
qed

lemma statistics_insert_urgent:
  assumes "t_priority t = ''urgent''"
  shows "total (statistics now (xs @ t # ys)) = total (statistics now (xs @ ys)) + 1
     \<and> completed (statistics now (xs @ t # ys))
         = completed (statistics now (xs @ ys)) + (if t_completed t then 1 else 0)
     \<and> pending (statistics now (xs @ t # ys))
         = pending (statistics now (xs @ ys)) + (if t_completed t then 0 else 1)
     \<and> byPriority (statistics now (xs @ t # ys)) = byPriority (statistics now (xs @ ys))"
  using assms by (simp add: statistics_def)

lemma statistics_insert_category:
  assumes "inheritedText (orElse (Some (t_category t)) ''uncategorized'') = None"
  shows "byCategory (statistics now (xs @ t # ys))
         = (byCategory (statistics now (xs @ ys)))
             (orElse (Some (t_category t)) ''uncategorized'' \<mapsto>
                Count ((case byCategory (statistics now (xs @ ys)) (orElse (Some (t_category t)) ''uncategorized'') of
                          Some (Count n) \<Rightarrow> n | _ \<Rightarrow> 0) + 1))"
proof -
  have cat: "byCategory (statistics now zs) = fold countCategory zs Map.empty" for zs
    by (simp add: statistics_def)
  show ?thesis
    by (simp only: cat byCategory_insert [OF assms])
qed

lemma statistics_priority_sum:
  "high (byPriority (statistics now ts)) + medium (byPriority (statistics now ts))
     + low (byPriority (statistics now ts))
   = length (filter (\<lambda>t. t_priority t \<in> {''high'', ''medium'', ''low''}) ts)"
  by (induction ts) (auto simp: statistics_def)

lemma getStatistics_eq:
  "getStatistics entropy now userId r =
     (case hydrateAll entropy now (storage r) of
        Inl e \<Rightarrow> (Inl e, r\<lparr>loadCalls := loadCalls r + 1\<rparr>)
      | Inr ts \<Rightarrow>
          (Inr (statistics now
                  (if truthy userId then filter (\<lambda>task. t_userId task = the userId) ts else ts)),
           r\<lparr>loadCalls := loadCalls r + 1\<rparr>))"
  by (cases "truthy userId")
     (auto simp: getStatistics_def findByUserId_def findAll_eq applyOptions_def noOptions_def
        truthy_def positive_def split: sum.splits option.splits)

lemma hydrateAll_append:
  "hydrateAll entropy now (xs @ ys) =
     bindE (hydrateAll entropy now xs) (\<lambda>a. bindE (hydrateAll entropy now ys) (\<lambda>b. Inr (a @ b)))"
  by (induction xs) (auto simp: bindE_def split: sum.splits)

lemma hydrateAll_insert:
  assumes "hydrateAll entropy now (xs @ ys) = Inr ts" and "hydrateTask entropy now row = Inr t"
  shows "\<exists>a b. ts = a @ b \<and> hydrateAll entropy now xs = Inr a \<and> hydrateAll entropy now ys = Inr b
           \<and> hydrateAll entropy now (xs @ row # ys) = Inr (a @ t # b)"
  using assms by (auto simp: hydrateAll_append bindE_def split: sum.splits)

text \<open>
  What does hold of an urgent task. Take a persisted collection on which \<open>getStatistics\<close>
  (for all users, or scoped to one) yields \<open>s0\<close>, and put one more row into it, anywhere,
  that hydrates to a task of priority \<open>urgent\<close> inside the scope. Then \<open>getStatistics\<close>
  succeeds again, the total is one more, \<open>completed\<close> or \<open>pending\<close> is one more according
  to the task, the three \<open>byPriority\<close> counts are those of \<open>s0\<close> and their sum is less than
  the total; and the category bucket of the task is a count, one more than before, when
  the category names nothing that objects inherit.
\<close>

lemma getStatistics_counts_urgent_task:
  assumes base: "fst (getStatistics entropy now userId (r\<lparr>storage := before @ after\<rparr>)) = Inr s0"
    and row: "hydrateTask entropy now row = Inr t"
    and urgent: "t_priority t = ''urgent''"
    and scope: "truthy userId \<longrightarrow> t_userId t = the userId"
  shows "\<exists>s. fst (getStatistics entropy now userId (r\<lparr>storage := before @ row # after\<rparr>)) = Inr s
     \<and> total s = total s0 + 1
     \<and> completed s = completed s0 + (if t_completed t then 1 else 0)
     \<and> pending s = pending s0 + (if t_completed t then 0 else 1)
     \<and> byPriority s = byPriority s0
     \<and> high (byPriority s) + medium (byPriority s) + low (byPriority s) < total s
     \<and> (inheritedText (orElse (Some (t_category t)) ''uncategorized'') = None \<longrightarrow>
          byCategory s
            = (byCategory s0)
                (orElse (Some (t_category t)) ''uncategorized'' \<mapsto>
                   Count ((case byCategory s0 (orElse (Some (t_category t)) ''uncategorized'') of
                             Some (Count n) \<Rightarrow> n | _ \<Rightarrow> 0) + 1)))"
proof -
  let ?scope = "\<lambda>ts. if truthy userId then filter (\<lambda>task. t_userId task = the userId) ts else ts"
  from base obtain ts where ts: "hydrateAll entropy now (before @ after) = Inr ts"
    and s0: "s0 = statistics now (?scope ts)"
    by (auto simp: getStatistics_eq split: sum.splits)
  from hydrateAll_insert [OF ts row] obtain a b where ab: "ts = a @ b"
    and ins: "hydrateAll entropy now (before @ row # after) = Inr (a @ t # b)"
    by blast
  define A where "A = ?scope a"
  define B where "B = ?scope b"
  have sc: "?scope (a @ t # b) = A @ t # B" "?scope (a @ b) = A @ B"
    using scope by (simp_all add: A_def B_def)
  let ?s = "statistics now (A @ t # B)"
  let ?base = "statistics now (A @ B)"
  have "fst (getStatistics entropy now userId (r\<lparr>storage := before @ row # after\<rparr>))
          = Inr (statistics now (?scope (a @ t # b)))"
    by (simp add: getStatistics_eq ins)
  then have res: "fst (getStatistics entropy now userId (r\<lparr>storage := before @ row # after\<rparr>)) = Inr ?s"
    by (simp only: sc(1))
  have "s0 = statistics now (?scope (a @ b))"
    using s0 ab by simp
  then have s0': "s0 = ?base"
    by (simp only: sc(2))
  note step = statistics_insert_urgent [OF urgent, of now A B]
  have "length (filter (\<lambda>t. t_priority t \<in> {''high'', ''medium'', ''low''}) (A @ B)) \<le> length (A @ B)"
    by (rule length_filter_le)
  moreover have "total ?base = length (A @ B)"
    by (simp add: statistics_def)
  ultimately have "high (byPriority ?base) + medium (byPriority ?base) + low (byPriority ?base) \<le> total ?base"
    by (simp only: statistics_priority_sum)
  with step have less: "high (byPriority ?s) + medium (byPriority ?s) + low (byPriority ?s) < total ?s"
    by simp
  have bucket: "inheritedText (orElse (Some (t_category t)) ''uncategorized'') = None \<longrightarrow>
          byCategory ?s
            = (byCategory ?base)
                (orElse (Some (t_category t)) ''uncategorized'' \<mapsto>
                   Count ((case byCategory ?base (orElse (Some (t_category t)) ''uncategorized'') of
                             Some (Count n) \<Rightarrow> n | _ \<Rightarrow> 0) + 1))"
    using statistics_insert_category [of t now A B] by blast
  show ?thesis
    unfolding s0'
  proof (intro exI conjI)
    show "fst (getStatistics entropy now userId (r\<lparr>storage := before @ row # after\<rparr>)) = Inr ?s"
      by (rule res)
    show "total ?s = total ?base + 1"
      by (rule step [THEN conjunct1])
    show "completed ?s = completed ?base + (if t_completed t then 1 else 0)"
      by (rule step [THEN conjunct2, THEN conjunct1])
    show "pending ?s = pending ?base + (if t_completed t then 0 else 1)"
      by (rule step [THEN conjunct2, THEN conjunct2, THEN conjunct1])
    show "byPriority ?s = byPriority ?base"
      by (rule step [THEN conjunct2, THEN conjunct2, THEN conjunct2])
    show "high (byPriority ?s) + medium (byPriority ?s) + low (byPriority ?s) < total ?s"
      by (rule less)
    show "inheritedText (orElse (Some (t_category t)) ''uncategorized'') = None \<longrightarrow>
          byCategory ?s
            = (byCategory ?base)
                (orElse (Some (t_category t)) ''uncategorized'' \<mapsto>
                   Count ((case byCategory ?base (orElse (Some (t_category t)) ''uncategorized'') of
                             Some (Count n) \<Rightarrow> n | _ \<Rightarrow> 0) + 1))"
      by (rule bucket)
  qed
qed

text \<open>
  C9. An urgent task does not always contribute to its \<open>byCategory\<close> bucket. Over a
  collection of one task of priority \<open>high\<close> and category \<open>general\<close> and one urgent task,
  \<open>getStatistics\<close> gives a total of two and the \<open>byPriority\<close> counts 1, 0, 0 (the urgent task
  is in none of them); but when the category of the urgent task is \<open>__proto__\<close> the
  \<open>byCategory\<close> record has the bucket \<open>general\<close> and no other, and when it is \<open>constructor\<close>
  the bucket of that name is not a count but a string, the text of the function \<open>Object\<close>
  followed by \<open>1\<close>.
\<close>

theorem getStatistics_inherited_category_bucket:
  "fst (getStatistics ''9'' 2000 None (TaskRepository_new [toJSON exampleTask, toJSON protoTask]))
     = Inr \<lparr> total = 2, completed = 0, pending = 2, overdue = 2,
             byPriority = \<lparr>high = 1, medium = 0, low = 0\<rparr>,
             byCategory = [''general'' \<mapsto> Count 1] \<rparr>
   \<and> [''general'' \<mapsto> Count 1] ''__proto__'' = None
   \<and> fst (getStatistics ''9'' 2000 None (TaskRepository_new [toJSON exampleTask, toJSON constructorTask]))
     = Inr \<lparr> total = 2, completed = 0, pending = 2, overdue = 2,
             byPriority = \<lparr>high = 1, medium = 0, low = 0\<rparr>,
             byCategory = [''general'' \<mapsto> Count 1,
                           ''constructor'' \<mapsto> Text ''function Object() { [native code] }1''] \<rparr>"
proof -
  have h: "hydrateTask ''9'' 2000 (toJSON protoTask) = Inr protoTask"
      "hydrateTask ''9'' 2000 (toJSON constructorTask) = Inr constructorTask"
    by (simp_all add: task_model_defs exampleTask_def protoTask_def constructorTask_def)
  have proto: "statistics 2000 [exampleTask, protoTask]
      = \<lparr> total = 2, completed = 0, pending = 2, overdue = 2,
          byPriority = \<lparr>high = 1, medium = 0, low = 0\<rparr>,
          byCategory = [''general'' \<mapsto> Count 1] \<rparr>"
    by (simp add: statistics_def countCategory_def orElse_def inheritedText_def
        exampleTask_def protoTask_def)
  have ctor: "statistics 2000 [exampleTask, constructorTask]
      = \<lparr> total = 2, completed = 0, pending = 2, overdue = 2,
          byPriority = \<lparr>high = 1, medium = 0, low = 0\<rparr>,
          byCategory = [''general'' \<mapsto> Count 1,
                        ''constructor'' \<mapsto> Text ''function Object() { [native code] }1''] \<rparr>"
    by (simp add: statistics_def countCategory_def orElse_def inheritedText_def
        exampleTask_def constructorTask_def)
  show ?thesis
    by (simp add: getStatistics_eq TaskRepository_new_def hydrate_exampleTask h bindE_def truthy_def
        proto ctor)
qed

section \<open>Completion and status\<close>

text \<open>
  \<open>setStatus\<close> leaves \<open>_completed\<close> true exactly when the status is \<open>completed\<close>, whatever
  the task was before; \<open>markComplete\<close> and \<open>markIncomplete\<close> keep that relation when it
  holds; and so does every entry of an update other than one for the key \<open>completed\<close>.
\<close>

lemma setStatus_couples:
  assumes "setStatus now status t = Inr t'"
  shows "t_completed t' \<longleftrightarrow> t_status t' = ''completed''"
  using assms
  by (auto simp: setStatus_def validateStatus_def bindE_def markComplete_def markIncomplete_def
      touch_def Let_def split: if_splits)

lemma markComplete_keeps_coupling:
  assumes "t_completed t \<longleftrightarrow> t_status t = ''completed''"
  shows "t_completed (markComplete now t) \<longleftrightarrow> t_status (markComplete now t) = ''completed''"
  using assms by (simp add: markComplete_def touch_def)

lemma markIncomplete_keeps_coupling:
  assumes "t_completed t \<longleftrightarrow> t_status t = ''completed''"
  shows "t_completed (markIncomplete now t) \<longleftrightarrow> t_status (markIncomplete now t) = ''completed''"
  using assms by (simp add: markIncomplete_def touch_def)

lemma applyUpdate_keeps_coupling:
  assumes "\<And>v. u \<noteq> Upd_completed v"
    and "t_completed t \<longleftrightarrow> t_status t = ''completed''"
    and "applyUpdate now u t = Inr t'"
  shows "t_completed t' \<longleftrightarrow> t_status t' = ''completed''"
proof (cases u)
  case (Upd_status v)
  with assms(3) show ?thesis by (simp add: setStatus_couples)
next
  case (Upd_completed v)
  with assms(1) show ?thesis by blast
qed (use assms(2,3) in \<open>auto simp: updateTitle_def updateDescription_def updatePriority_def
      setCategory_def setDueDate_def setEstimatedHours_def setActualHours_def touch_def bindE_def
      split: if_splits sum.splits\<close>)

text \<open>
  C1. The relation between \<open>completed\<close> and \<open>status\<close> is not kept by the repository's
  \<open>update\<close> with the key \<open>completed\<close>. On a persisted collection holding one pending task,
  \<open>update(id, {completed: true})\<close> returns, and persists, a task that is completed with
  status \<open>pending\<close> and no completion time, while \<open>update(id, {status: 'completed'})\<close> on
  the same collection gives a completed task with status \<open>completed\<close>.
\<close>

theorem update_completed_leaves_status_pending:
  "fst (update ''9'' 2000 ''task_1'' [Upd_completed True] (TaskRepository_new [toJSON exampleTask]))
     = Inr (Some (exampleTask\<lparr>t_completed := True, t_updatedAt := 2000\<rparr>))
   \<and> storage (snd (update ''9'' 2000 ''task_1'' [Upd_completed True] (TaskRepository_new [toJSON exampleTask])))
     = [toJSON (exampleTask\<lparr>t_completed := True, t_updatedAt := 2000\<rparr>)]
   \<and> t_completed (exampleTask\<lparr>t_completed := True, t_updatedAt := 2000\<rparr>)
   \<and> t_status (exampleTask\<lparr>t_completed := True, t_updatedAt := 2000\<rparr>) = ''pending''
   \<and> t_completedAt (exampleTask\<lparr>t_completed := True, t_updatedAt := 2000\<rparr>) = None
   \<and> fst (update ''9'' 2000 ''task_1'' [Upd_status ''completed''] (TaskRepository_new [toJSON exampleTask]))
     = Inr (Some (exampleTask\<lparr>t_completed := True, t_status := ''completed'',
                               t_completedAt := Some 2000, t_updatedAt := 2000\<rparr>))"
proof -
  have t: "t_id exampleTask = ''task_1''"
    by (simp add: exampleTask_def)
  have s: "setStatus 2000 ''completed'' exampleTask
             = Inr (exampleTask\<lparr>t_completed := True, t_status := ''completed'',
                                t_completedAt := Some 2000, t_updatedAt := 2000\<rparr>)"
    by (simp add: setStatus_def validateStatus_def bindE_def markComplete_def touch_def exampleTask_def)
  show ?thesis
    by (simp add: update_def getAllTasks_def saveTasks_def TaskRepository_new_def d_id_toJSON t
        hydrate_exampleTask s bindE_def Let_def)
      (simp add: exampleTask_def)
qed

section \<open>Tags and dependencies\<close>

text \<open>
  The constructor lower-cases every tag. The mutators of tags and dependencies keep the
  tags distinct and lower-case and the dependencies distinct and free of the task's own
  id, when they are so before.
\<close>

lemma constructor_tags_lower_case:
  assumes "constructor entropy now title description userId options = Inr t"
  shows "\<forall>tag \<in> set (t_tags t). toLowerCase tag = tag"
  using assms
  by (auto simp: constructor_def bindE_def validateTags_def toLowerCase_idem
      split: option.splits sum.splits)

lemma tag_and_dependency_mutators_preserve:
  assumes tags: "distinct (t_tags t)" "\<forall>tag \<in> set (t_tags t). toLowerCase tag = tag"
    and deps: "distinct (t_dependencies t)" "t_id t \<notin> set (t_dependencies t)"
    and step: "addTag now x t = Inr t' \<or> t' = removeTag now x t \<or> t' = clearTags now t
               \<or> addDependency now x t = Inr t' \<or> t' = removeDependency now x t"
  shows "distinct (t_tags t') \<and> (\<forall>tag \<in> set (t_tags t'). toLowerCase tag = tag)
         \<and> distinct (t_dependencies t') \<and> t_id t' \<notin> set (t_dependencies t')"
  using step
proof (elim disjE)
  assume "addTag now x t = Inr t'"
  with tags deps show ?thesis
    by (auto simp: addTag_def touch_def toLowerCase_idem Let_def split: if_splits)
next
  assume "t' = removeTag now x t"
  with tags deps show ?thesis
    by (auto simp: removeTag_def touch_def Let_def)
next
  assume "t' = clearTags now t"
  with tags deps show ?thesis
    by (simp add: clearTags_def touch_def)
next
  assume "addDependency now x t = Inr t'"
  with tags deps show ?thesis
    by (auto simp: addDependency_def touch_def split: if_splits)
next
  assume "t' = removeDependency now x t"
  with tags deps show ?thesis
    by (auto simp: removeDependency_def touch_def)
qed

text \<open>
  C6. The constructor does not remove duplicates from the tags it normalises and stores
  the dependencies it is given as they are. Built with the tags \<open>a\<close> and \<open>A\<close> and with its
  own id twice among its dependencies, a task has the tags \<open>a\<close>, \<open>a\<close> and depends, twice,
  on itself.
\<close>

theorem constructor_keeps_duplicate_tags_and_self_dependency:
  "constructor ''1'' 1000 (Some ''A'') None (Some ''u1'')
      (emptyOptions\<lparr>d_id := Some ''task_1'', d_priority := Some ''high'', d_dueDate := Some 500,
                     d_tags := Some [''a'', ''A''], d_dependencies := Some [''task_1'', ''task_1'']\<rparr>)
     = Inr (exampleTask\<lparr>t_tags := [''a'', ''a''], t_dependencies := [''task_1'', ''task_1'']\<rparr>)
   \<and> \<not> distinct (t_tags (exampleTask\<lparr>t_tags := [''a'', ''a''], t_dependencies := [''task_1'', ''task_1'']\<rparr>))
   \<and> \<not> distinct (t_dependencies (exampleTask\<lparr>t_tags := [''a'', ''a''], t_dependencies := [''task_1'', ''task_1'']\<rparr>))
   \<and> t_id (exampleTask\<lparr>t_tags := [''a'', ''a''], t_dependencies := [''task_1'', ''task_1'']\<rparr>)
       \<in> set (t_dependencies (exampleTask\<lparr>t_tags := [''a'', ''a''], t_dependencies := [''task_1'', ''task_1'']\<rparr>))"
  by (simp add: constructor_def validateConstructorParams_def truthy_def trim_def isWhiteSpace_def
      orElse_def validatePriority_def validateCategory_def validateHours_def validateStatus_def
      validateTags_def bindE_def generateId_def toLowerCase_def lowerChar_A lowerChar_other
      emptyOptions_def exampleTask_def)

section \<open>Serialization round trip\<close>

text \<open>
  \<open>fromJSON\<close> gives back the task \<open>toJSON\<close> was applied to when the fields of the task are
  as the constructor and the mutators of the class leave them, and the category is not
  empty.
\<close>

lemma orElse_Some:
  assumes "x \<noteq> []"
  shows "orElse (Some x) d = x"
  using assms by (simp add: orElse_def)

lemma fromJSON_toJSON_normal:
  assumes ident: "t_id t \<noteq> []"
    and title: "t_title t \<noteq> []" "trim (t_title t) = t_title t"
    and description: "trim (t_description t) = t_description t"
    and users: "t_userId t \<noteq> []" "t_assignedTo t \<noteq> []"
    and priority: "t_priority t \<in> set [''low'', ''medium'', ''high'', ''urgent'']"
    and category: "t_category t \<noteq> []" "toLowerCase (trim (t_category t)) = t_category t"
    and tags: "\<forall>tag \<in> set (t_tags t). toLowerCase (trim tag) = tag"
    and estimated: "\<forall>h. t_estimatedHours t = Some h \<longrightarrow> 0 \<le> h"
    and actual: "\<forall>h. t_actualHours t = Some h \<longrightarrow> 0 \<le> h"
    and status: "t_status t \<in> set [''pending'', ''in-progress'', ''blocked'', ''completed'', ''cancelled'']"
  shows "fromJSON entropy now (toJSON t) = Inr t"
proof -
  have tg: "validateTags (t_tags t) = t_tags t"
    using tags by (simp add: validateTags_def map_idI)
  have est: "validateHours (t_estimatedHours t) = Inr (t_estimatedHours t)"
    using estimated by (cases "t_estimatedHours t") (auto simp: validateHours_def)
  have act: "validateHours (t_actualHours t) = Inr (t_actualHours t)"
    using actual by (cases "t_actualHours t") (auto simp: validateHours_def)
  have "t_priority t \<noteq> []"
    using priority by auto
  then have "orElse (Some (t_priority t)) ''medium'' = t_priority t"
    by (rule orElse_Some)
  then have pri: "validatePriority (orElse (Some (t_priority t)) ''medium'') = Inr (t_priority t)"
    using priority by (simp add: validatePriority_def)
  have "t_status t \<noteq> []"
    using status by auto
  then have "orElse (Some (t_status t)) ''pending'' = t_status t"
    by (rule orElse_Some)
  then have sta: "validateStatus (orElse (Some (t_status t)) ''pending'') = Inr (t_status t)"
    using status by (simp add: validateStatus_def)
  have cat: "validateCategory (orElse (Some (t_category t)) ''general'') = Inr (t_category t)"
    using category by (simp add: orElse_Some validateCategory_def)
  have params: "validateConstructorParams (Some (t_title t)) (Some (t_description t)) (Some (t_userId t)) = None"
    using title users by (simp add: validateConstructorParams_def truthy_def)
  have desc: "(if truthy (Some (t_description t)) then trim (the (Some (t_description t))) else [])
                = t_description t"
    using description by (simp add: truthy_def)
  have "constructor entropy now (Some (t_title t)) (Some (t_description t)) (Some (t_userId t)) (toJSON t)
      = Inr t"
    unfolding constructor_def
    by (simp add: toJSON_def params pri sta cat est act tg desc bindE_def
        orElse_Some [OF ident] orElse_Some [OF users(2)] title(2))
  then show ?thesis
    by (simp add: fromJSON_def toJSON_def)
qed

lemma orElse_not_empty:
  assumes "d \<noteq> []"
  shows "orElse v d \<noteq> []"
  using assms by (simp add: orElse_def split: option.splits)

lemma constructor_normal:
  assumes built: "constructor entropy now title description userId options = Inr t"
  shows "t_id t \<noteq> []" "t_title t \<noteq> []" "trim (t_title t) = t_title t"
    "trim (t_description t) = t_description t" "t_userId t \<noteq> []" "t_assignedTo t \<noteq> []"
    "t_priority t \<in> set [''low'', ''medium'', ''high'', ''urgent'']"
    "toLowerCase (trim (t_category t)) = t_category t"
    "\<forall>tag \<in> set (t_tags t). toLowerCase (trim tag) = tag"
    "\<forall>h. t_estimatedHours t = Some h \<longrightarrow> 0 \<le> h"
    "\<forall>h. t_actualHours t = Some h \<longrightarrow> 0 \<le> h"
    "t_status t \<in> set [''pending'', ''in-progress'', ''blocked'', ''completed'', ''cancelled'']"
proof -
  from built obtain priority category estimatedHours actualHours status where
    params: "validateConstructorParams title description userId = None"
    and pri: "validatePriority (orElse (d_priority options) ''medium'') = Inr priority"
    and cat: "validateCategory (orElse (d_category options) ''general'') = Inr category"
    and est: "validateHours (d_estimatedHours options) = Inr estimatedHours"
    and act: "validateHours (d_actualHours options) = Inr actualHours"
    and sta: "validateStatus (orElse (d_status options) ''pending'') = Inr status"
    and fields: "t_id t = orElse (d_id options) (generateId entropy)" "t_title t = trim (the title)"
      "t_description t = (if truthy description then trim (the description) else [])"
      "t_userId t = the userId" "t_assignedTo t = orElse (d_assignedTo options) (the userId)"
      "t_priority t = priority" "t_category t = category"
      "t_tags t = validateTags (case d_tags options of Some ts \<Rightarrow> ts | None \<Rightarrow> [])"
      "t_estimatedHours t = estimatedHours" "t_actualHours t = actualHours" "t_status t = status"
    by (auto simp: constructor_def bindE_def split: option.splits sum.splits)
  from params have title: "trim (the title) \<noteq> []" and user: "the userId \<noteq> []"
    by (auto simp: validateConstructorParams_def truthy_def split: if_splits option.splits)
  show "t_id t \<noteq> []"
    by (simp add: fields orElse_not_empty generateId_def)
  show "t_title t \<noteq> []" "trim (t_title t) = t_title t"
    using title by (simp_all add: fields trim_idem)
  show "trim (t_description t) = t_description t"
    by (simp add: fields trim_idem) (simp add: trim_def)
  show "t_userId t \<noteq> []" "t_assignedTo t \<noteq> []"
    using user by (simp_all add: fields orElse_not_empty)
  show "t_priority t \<in> set [''low'', ''medium'', ''high'', ''urgent'']"
    using pri by (auto simp: fields validatePriority_def split: if_splits)
  show "toLowerCase (trim (t_category t)) = t_category t"
    using cat by (auto simp: fields validateCategory_def normalize_idem split: if_splits)
  show "\<forall>tag \<in> set (t_tags t). toLowerCase (trim tag) = tag"
    by (auto simp: fields validateTags_def normalize_idem)
  show "\<forall>h. t_estimatedHours t = Some h \<longrightarrow> 0 \<le> h"
    using est by (auto simp: fields validateHours_def split: option.splits if_splits)
  show "\<forall>h. t_actualHours t = Some h \<longrightarrow> 0 \<le> h"
    using act by (auto simp: fields validateHours_def split: option.splits if_splits)
  show "t_status t \<in> set [''pending'', ''in-progress'', ''blocked'', ''completed'', ''cancelled'']"
    using sta by (auto simp: fields validateStatus_def split: if_splits)
qed

lemma constructor_round_trip:
  assumes built: "constructor entropy now title description userId options = Inr t"
    and category: "t_category t \<noteq> []"
  shows "fromJSON entropy' now' (toJSON t) = Inr t"
  using constructor_normal [OF built] category
  by (intro fromJSON_toJSON_normal)

text \<open>
  C10. A category that consists of white space passes the emptiness check of
  \<open>_validateCategory\<close> and is then trimmed to the empty string, in the constructor and in
  \<open>setCategory\<close> alike. For the resulting task \<open>fromJSON(toJSON(t))\<close> differs from \<open>t\<close>: the
  empty category is falsy, so the constructor replaces it by \<open>general\<close>.
\<close>

theorem fromJSON_toJSON_changes_blank_category:
  "constructor ''1'' 1000 (Some ''A'') None (Some ''u1'')
      (emptyOptions\<lparr>d_id := Some ''task_1'', d_priority := Some ''high'', d_dueDate := Some 500,
                     d_category := Some '' ''\<rparr>)
     = Inr (exampleTask\<lparr>t_category := []\<rparr>)
   \<and> setCategory 1000 '' '' exampleTask = Inr (exampleTask\<lparr>t_category := []\<rparr>)
   \<and> fromJSON ''2'' 3000 (toJSON (exampleTask\<lparr>t_category := []\<rparr>))
     = Inr (exampleTask\<lparr>t_category := ''general''\<rparr>)
   \<and> fromJSON ''2'' 3000 (toJSON (exampleTask\<lparr>t_category := []\<rparr>))
     \<noteq> Inr (exampleTask\<lparr>t_category := []\<rparr>)"
proof -
  have blank: "validateCategory '' '' = Inr []"
    by (simp add: validateCategory_def trim_def isWhiteSpace_def toLowerCase_def)
  have built: "constructor ''1'' 1000 (Some ''A'') None (Some ''u1'')
      (emptyOptions\<lparr>d_id := Some ''task_1'', d_priority := Some ''high'', d_dueDate := Some 500,
                     d_category := Some '' ''\<rparr>)
     = Inr (exampleTask\<lparr>t_category := []\<rparr>)"
    by (simp add: constructor_def validateConstructorParams_def truthy_def trim_def isWhiteSpace_def
        orElse_def validatePriority_def validateHours_def validateStatus_def validateTags_def
        bindE_def blank emptyOptions_def exampleTask_def)
  have viaSetter: "setCategory 1000 '' '' exampleTask = Inr (exampleTask\<lparr>t_category := []\<rparr>)"
    by (simp add: setCategory_def blank bindE_def touch_def exampleTask_def)
  have reloaded: "fromJSON ''2'' 3000 (toJSON (exampleTask\<lparr>t_category := []\<rparr>))
     = Inr (exampleTask\<lparr>t_category := ''general''\<rparr>)"
    by (simp add: task_model_defs exampleTask_def)
  have differ: "exampleTask\<lparr>t_category := ''general''\<rparr> \<noteq> exampleTask\<lparr>t_category := []\<rparr>"
    by (simp add: exampleTask_def)
  from built viaSetter reloaded differ show ?thesis by simp
qed


end
